theory Spec2Isabelle
  imports Main
begin

section \<open>Values shared by the adapter and the translators\<close>

text \<open>
  A Go \<^verbatim>\<open>[]byte\<close> and a Go \<^verbatim>\<open>string\<close> are both sequences of bytes; an Isabelle
  \<^typ>\<open>char\<close> is one byte.
\<close>

type_synonym bytes = string

text \<open>
  A Go \<^verbatim>\<open>error\<close> value, by the dynamic type that produced it. \<open>Errorf\<close> is what
  \<^verbatim>\<open>fmt.Errorf\<close> returns and carries the formatted message. The other constructors are the
  errors of the libraries the code calls: \<^verbatim>\<open>*json.SyntaxError\<close>,
  \<^verbatim>\<open>*json.UnmarshalTypeError\<close>, \<^verbatim>\<open>*url.Error\<close>, and any other library error
  by its message.
\<close>

datatype error =
    Errorf string
  | SyntaxError
  | UnmarshalTypeError
  | UrlError
  | LibraryError string

text \<open>
  What a call of a Go function that returns \<^verbatim>\<open>(T, error)\<close> can do: return a value with
  a nil error, return a non-nil error, or panic (the run-time error message is kept).
\<close>

datatype 'a result = Ok 'a | Err error | Panic string

section \<open>The strings package\<close>

text \<open>
  \<^verbatim>\<open>strings.Split(s, sep)\<close> for a separator of one byte, the only way the adapter calls it.
  As the library does, it scans \<open>s\<close> for the next separator and cuts there: \<open>cur\<close> holds, in
  reverse, the bytes read since the last cut. The result always has at least one element,
  and one more than \<open>s\<close> has separators.
\<close>

fun Split_from :: "string \<Rightarrow> string \<Rightarrow> char \<Rightarrow> string list" where
  "Split_from cur [] sep = [rev cur]"
| "Split_from cur (c # cs) sep =
     (if c = sep then rev cur # Split_from [] cs sep
      else Split_from (c # cur) cs sep)"

definition Split :: "string \<Rightarrow> char \<Rightarrow> string list" where
  "Split s sep = Split_from [] s sep"

text \<open>\<^verbatim>\<open>strings.Join(elems, sep)\<close>.\<close>

fun Join :: "string list \<Rightarrow> string \<Rightarrow> string" where
  "Join [] sep = []"
| "Join [x] sep = x"
| "Join (x # y # ys) sep = x @ sep @ Join (y # ys) sep"

section \<open>The payload structs (package structs)\<close>

text \<open>
  The declarations of \<^verbatim>\<open>internal/structs\<close> are not among the sources. The records below
  have the fields that the translators read, with the types their use requires: a count
  compared with \<open>0\<close>, an identifier printed with \<^verbatim>\<open>%d\<close>, strings elsewhere, and a slice of
  commits.
\<close>

record GiteaRepository =
  FullName :: string
  HtmlUrl :: string

record GiteaCommit =
  Commit_Id :: string

record GiteaPushEvent =
  TotalCommits :: int
  Commits :: "GiteaCommit list"
  Push_Repository :: GiteaRepository

record GiteaPullRequest =
  PullRequest_Id :: int

record GiteaPullRequestEvent =
  Action :: string
  PullRequest :: GiteaPullRequest
  PullRequest_Repository :: GiteaRepository

record GiteaCreateEvent =
  Create_RefType :: string
  Create_Ref :: string
  Create_Repository :: GiteaRepository

record GiteaDeleteEvent =
  Delete_RefType :: string
  Delete_Ref :: string
  Delete_Repository :: GiteaRepository

text \<open>
  A value passed as \<^verbatim>\<open>interface{}\<close> to the two helpers: one of the four payload structs,
  or a value of any other type, kept by the name \<^verbatim>\<open>%T\<close> prints for its type.
\<close>

datatype gitea_value =
    PushEvent GiteaPushEvent
  | PullRequestEvent GiteaPullRequestEvent
  | CreateEvent GiteaCreateEvent
  | DeleteEvent GiteaDeleteEvent
  | OtherValue string

text \<open>\<^verbatim>\<open>fmt.Sprintf("%T", v)\<close> for such a value.\<close>

fun type_name :: "gitea_value \<Rightarrow> string" where
  "type_name (PushEvent _) = ''structs.GiteaPushEvent''"
| "type_name (PullRequestEvent _) = ''structs.GiteaPullRequestEvent''"
| "type_name (CreateEvent _) = ''structs.GiteaCreateEvent''"
| "type_name (DeleteEvent _) = ''structs.GiteaDeleteEvent''"
| "type_name (OtherValue n) = n"

text \<open>
  What \<open>SetCustomData\<close> is given: a payload struct as it is, or the anonymous struct of
  \<open>addGiteaEventAsCustomData\<close> with its fields \<open>Kind\<close> and \<open>Content\<close>.
\<close>

datatype custom_data = Plain gitea_value | KindContent string gitea_value

section \<open>Canonical events\<close>

text \<open>
  The event types the translators build (\<^verbatim>\<open>cdevents.CDEventType\<close> values of the CDEvents
  SDK, version 0.4 of the specification).
\<close>

datatype CDEventType =
    ChangeCreatedEventTypeV0_3_0
  | ChangeMergedEventTypeV0_2_0
  | BranchCreatedEventTypeV0_2_0
  | BranchDeletedEventTypeV0_2_0

text \<open>\<^verbatim>\<open>cdevents.Reference\<close>.\<close>

record Reference =
  Reference_Id :: string
  Reference_Source :: string

text \<open>
  A \<^verbatim>\<open>cdevents.CDEvent\<close>: the fields of the SDK's event structs that the code reads or
  sets. \<open>Context_Id\<close> and \<open>Context_Timestamp\<close> are filled in by the SDK's constructor.
  \<open>SubjectRepository\<close> is a pointer in the SDK, nil until set. \<open>CustomData\<close> is the value
  that \<open>SetCustomData\<close> stored (the SDK keeps it for its JSON encoding), nil until set.
\<close>

record CDEvent =
  Context_Type :: CDEventType
  Context_Id :: string
  Context_Timestamp :: string
  Context_Source :: string
  Subject_Id :: string
  Subject_Source :: string
  SubjectRepository :: "Reference option"
  CustomData :: "custom_data option"
  CustomDataContentType :: string

section \<open>The libraries the translators call\<close>

text \<open>
  \<^verbatim>\<open>url.URL\<close> and \<^verbatim>\<open>url.Userinfo\<close>, with the fields of the library.
  \<open>addSourcesFromRepositoryUrl\<close> reads \<open>Host\<close> and \<open>Path\<close>. \<open>User\<close> is a pointer, nil
  when the URL names no user.
\<close>

record Userinfo =
  username :: string
  password :: string
  passwordSet :: bool

record URL =
  Scheme :: string
  Opaque :: string
  User :: "Userinfo option"
  Host :: string
  Path :: string
  RawPath :: string
  OmitHost :: bool
  ForceQuery :: bool
  RawQuery :: string
  Fragment :: string
  RawFragment :: string

text \<open>
  The functions of the Go standard library and of the CDEvents SDK that the code calls, as
  parameters: the properties below hold for all of them.

  \<^item> \<open>Unmarshal_map\<close> is \<^verbatim>\<open>json.Unmarshal\<close> into a \<^verbatim>\<open>map[string]interface{}\<close> (only its
    error is used), and \<open>Unmarshal_Push\<close> and the three others are \<^verbatim>\<open>json.Unmarshal\<close> into
    the payload struct of each translator;
  \<^item> \<open>url_Parse\<close> and \<open>url_JoinPath\<close> are \<^verbatim>\<open>url.Parse\<close> and \<^verbatim>\<open>url.JoinPath\<close> (with one
    element);
  \<^item> \<open>initCDEvent\<close> is the part of the SDK's event constructors that can fail: it produces
    the identifier and the timestamp of a new event;
  \<^item> \<open>CheckCustomData\<close> is the check that the SDK's \<open>SetCustomData\<close> runs on the content type
    and the data before it stores them.
\<close>

record libs =
  Unmarshal_map :: "bytes \<Rightarrow> error option"
  Unmarshal_Push :: "bytes \<Rightarrow> error + GiteaPushEvent"
  Unmarshal_PullRequest :: "bytes \<Rightarrow> error + GiteaPullRequestEvent"
  Unmarshal_Create :: "bytes \<Rightarrow> error + GiteaCreateEvent"
  Unmarshal_Delete :: "bytes \<Rightarrow> error + GiteaDeleteEvent"
  url_Parse :: "string \<Rightarrow> error + URL"
  url_JoinPath :: "string \<Rightarrow> string \<Rightarrow> error + string"
  initCDEvent :: "CDEventType \<Rightarrow> error + string \<times> string"
  CheckCustomData :: "string \<Rightarrow> custom_data \<Rightarrow> error option"

section \<open>The translators (package translator)\<close>

text \<open>\<^verbatim>\<open>fmt.Sprintf("%d", i)\<close>: the decimal digits of an integer, with a sign when negative.\<close>

function decimal :: "nat \<Rightarrow> string" where
  "decimal n =
     (if n < 10 then [char_of (48 + n)]
      else decimal (n div 10) @ [char_of (48 + n mod 10)])"
  by pat_completeness auto
termination
  by (relation "measure id") auto

declare decimal.simps [simp del]

definition Sprintf_d :: "int \<Rightarrow> string" where
  "Sprintf_d i = (if i < 0 then CHR ''-'' # decimal (nat (- i)) else decimal (nat i))"

text \<open>
  The SDK's constructors \<^verbatim>\<open>NewChangeMergedEvent\<close>, \<^verbatim>\<open>NewChangeCreatedEvent\<close>,
  \<^verbatim>\<open>NewBranchCreatedEvent\<close> and \<^verbatim>\<open>NewBranchDeletedEvent\<close>: an event of the given type with
  a fresh identifier and timestamp and every other field at its zero value, or the error of
  the initialisation.
\<close>

definition NewEvent :: "libs \<Rightarrow> CDEventType \<Rightarrow> error + CDEvent" where
  "NewEvent env ty =
     (case initCDEvent env ty of
        Inl err \<Rightarrow> Inl err
      | Inr (i, ts) \<Rightarrow>
          Inr \<lparr>Context_Type = ty, Context_Id = i, Context_Timestamp = ts,
               Context_Source = [], Subject_Id = [], Subject_Source = [],
               SubjectRepository = None, CustomData = None, CustomDataContentType = []\<rparr>)"

definition NewChangeMergedEvent :: "libs \<Rightarrow> error + CDEvent" where
  "NewChangeMergedEvent env = NewEvent env ChangeMergedEventTypeV0_2_0"

definition NewChangeCreatedEvent :: "libs \<Rightarrow> error + CDEvent" where
  "NewChangeCreatedEvent env = NewEvent env ChangeCreatedEventTypeV0_3_0"

definition NewBranchCreatedEvent :: "libs \<Rightarrow> error + CDEvent" where
  "NewBranchCreatedEvent env = NewEvent env BranchCreatedEventTypeV0_2_0"

definition NewBranchDeletedEvent :: "libs \<Rightarrow> error + CDEvent" where
  "NewBranchDeletedEvent env = NewEvent env BranchDeletedEventTypeV0_2_0"

text \<open>
  The SDK's setters. \<open>SetSource\<close> sets the source of the event and, while the subject has
  no source yet, gives the subject the same source. \<open>SetCustomData\<close> stores nothing when
  its check fails.
\<close>

definition SetSource :: "string \<Rightarrow> CDEvent \<Rightarrow> CDEvent" where
  "SetSource v e =
     e\<lparr>Context_Source := v,
       Subject_Source := (if Subject_Source e = [] then v else Subject_Source e)\<rparr>"

definition SetSubjectId :: "string \<Rightarrow> CDEvent \<Rightarrow> CDEvent" where
  "SetSubjectId v e = e\<lparr>Subject_Id := v\<rparr>"

definition SetSubjectSource :: "string \<Rightarrow> CDEvent \<Rightarrow> CDEvent" where
  "SetSubjectSource v e = e\<lparr>Subject_Source := v\<rparr>"

definition SetSubjectRepository :: "Reference \<Rightarrow> CDEvent \<Rightarrow> CDEvent" where
  "SetSubjectRepository r e = e\<lparr>SubjectRepository := Some r\<rparr>"

definition SetCustomData :: "libs \<Rightarrow> string \<Rightarrow> custom_data \<Rightarrow> CDEvent \<Rightarrow> error + CDEvent" where
  "SetCustomData env contentType v e =
     (case CheckCustomData env contentType v of
        Some err \<Rightarrow> Inl err
      | None \<Rightarrow> Inr (e\<lparr>CustomData := Some v, CustomDataContentType := contentType\<rparr>))"

text \<open>\<open>addGiteaEventAsCustomData\<close>: the payload, tagged with the name of its type.\<close>

definition addGiteaEventAsCustomData :: "libs \<Rightarrow> gitea_value \<Rightarrow> CDEvent \<Rightarrow> error + CDEvent" where
  "addGiteaEventAsCustomData env giteaEvent cdEvent =
     (case SetCustomData env ''application/json''
             (KindContent (type_name giteaEvent) giteaEvent) cdEvent of
        Inl err \<Rightarrow> Inl err
      | Inr cdEvent' \<Rightarrow> Inr cdEvent')"

text \<open>
  \<open>addSourcesFromRepositoryUrl\<close>: the type switch picks the repository URL of the payload
  and panics on any other type. The function changes the event in place and returns an
  error, so the model returns the event as the function left it together with the error:
  untouched when the URL does not parse, and as \<open>SetSource\<close> left it when the host and the
  path do not join.
\<close>

definition addSourcesFromRepositoryUrl ::
  "libs \<Rightarrow> gitea_value \<Rightarrow> CDEvent \<Rightarrow> (CDEvent \<times> error option) result" where
  "addSourcesFromRepositoryUrl env giteaEvent cdEvent =
     (case (case giteaEvent of
              CreateEvent v \<Rightarrow> Inr (HtmlUrl (Create_Repository v))
            | DeleteEvent v \<Rightarrow> Inr (HtmlUrl (Delete_Repository v))
            | PushEvent v \<Rightarrow> Inr (HtmlUrl (Push_Repository v))
            | PullRequestEvent v \<Rightarrow> Inr (HtmlUrl (PullRequest_Repository v))
            | OtherValue ty \<Rightarrow>
                Inl (''failed to extract repository URL from Gitea event with type: '' @ ty)) of
        Inl p \<Rightarrow> Panic p
      | Inr rawRepoUrl \<Rightarrow>
          (case url_Parse env rawRepoUrl of
             Inl err \<Rightarrow> Ok (cdEvent, Some err)
           | Inr repoUrl \<Rightarrow>
               let cdEvent1 = SetSource (Host repoUrl) cdEvent in
               (case url_JoinPath env (Host repoUrl) (Path repoUrl) of
                  Inl err \<Rightarrow> Ok (cdEvent1, Some err)
                | Inr subjectSource \<Rightarrow> Ok (SetSubjectSource subjectSource cdEvent1, None))))"

text \<open>
  \<open>GiteaPushTranslator.Translate\<close>. The error that \<open>addSourcesFromRepositoryUrl\<close> returns is
  not looked at. \<^verbatim>\<open>giteaEvent.Commits[0]\<close> is an index into a slice: on an empty slice it is
  a run-time panic.
\<close>

definition GiteaPushTranslator_Translate :: "libs \<Rightarrow> bytes \<Rightarrow> CDEvent result" where
  "GiteaPushTranslator_Translate env data =
     (case Unmarshal_Push env data of
        Inl err \<Rightarrow> Err err
      | Inr giteaEvent \<Rightarrow>
          if TotalCommits giteaEvent = 0 then
            Err (Errorf ''Push event contains no new commits, will not convert to a CD Event'')
          else
            (case NewChangeMergedEvent env of
               Inl err \<Rightarrow> Err err
             | Inr cdEvent \<Rightarrow>
                 (case addSourcesFromRepositoryUrl env (PushEvent giteaEvent) cdEvent of
                    Panic p \<Rightarrow> Panic p
                  | Err err \<Rightarrow> Err err
                  | Ok (cdEvent1, _) \<Rightarrow>
                      (case Commits giteaEvent of
                         [] \<Rightarrow> Panic ''runtime error: index out of range [0] with length 0''
                       | commit0 # _ \<Rightarrow>
                           let cdEvent2 = SetSubjectId (Commit_Id commit0) cdEvent1;
                               cdEvent3 = SetSubjectRepository
                                 \<lparr>Reference_Id = FullName (Push_Repository giteaEvent),
                                  Reference_Source = []\<rparr> cdEvent2
                           in
                           (case addGiteaEventAsCustomData env (PushEvent giteaEvent) cdEvent3 of
                              Inl err \<Rightarrow> Err err
                            | Inr cdEvent4 \<Rightarrow> Ok cdEvent4)))))"

text \<open>\<open>GiteaPullRequestTranslator.Translate\<close>.\<close>

definition GiteaPullRequestTranslator_Translate :: "libs \<Rightarrow> bytes \<Rightarrow> CDEvent result" where
  "GiteaPullRequestTranslator_Translate env data =
     (case Unmarshal_PullRequest env data of
        Inl err \<Rightarrow> Err err
      | Inr giteaEvent \<Rightarrow>
          (case (if Action giteaEvent = ''opened'' then
                   (case NewChangeCreatedEvent env of
                      Inl err \<Rightarrow> Inl err
                    | Inr changeCreatedEvent \<Rightarrow>
                        Inr (SetSubjectRepository
                               \<lparr>Reference_Id = FullName (PullRequest_Repository giteaEvent),
                                Reference_Source = []\<rparr> changeCreatedEvent))
                 else if Action giteaEvent = ''closed'' then
                   (case NewChangeMergedEvent env of
                      Inl err \<Rightarrow> Inl err
                    | Inr changeMergedEvent \<Rightarrow>
                        Inr (SetSubjectRepository
                               \<lparr>Reference_Id = FullName (PullRequest_Repository giteaEvent),
                                Reference_Source = []\<rparr> changeMergedEvent))
                 else
                   Inl (Errorf (''unsupported Gitea Pull Request action: '' @ Action giteaEvent))) of
             Inl err \<Rightarrow> Err err
           | Inr cdEvent \<Rightarrow>
               (case addSourcesFromRepositoryUrl env (PullRequestEvent giteaEvent) cdEvent of
                  Panic p \<Rightarrow> Panic p
                | Err err \<Rightarrow> Err err
                | Ok (cdEvent1, _) \<Rightarrow>
                    let cdEvent2 = SetSubjectId
                          (''pr-'' @ Sprintf_d (PullRequest_Id (PullRequest giteaEvent))) cdEvent1
                    in
                    (case SetCustomData env ''application/json''
                            (Plain (PullRequestEvent giteaEvent)) cdEvent2 of
                       Inl err \<Rightarrow> Err err
                     | Inr cdEvent3 \<Rightarrow>
                         (case addGiteaEventAsCustomData env (PullRequestEvent giteaEvent)
                                 cdEvent3 of
                            Inl err \<Rightarrow> Err err
                          | Inr cdEvent4 \<Rightarrow> Ok cdEvent4)))))"

text \<open>\<open>GiteaCreateTranslator.Translate\<close>.\<close>

definition GiteaCreateTranslator_Translate :: "libs \<Rightarrow> bytes \<Rightarrow> CDEvent result" where
  "GiteaCreateTranslator_Translate env data =
     (case Unmarshal_Create env data of
        Inl err \<Rightarrow> Err err
      | Inr giteaEvent \<Rightarrow>
          (case (if Create_RefType giteaEvent = ''branch'' then
                   (case NewBranchCreatedEvent env of
                      Inl err \<Rightarrow> Inl err
                    | Inr branchCreatedEvent \<Rightarrow>
                        Inr (SetSubjectRepository
                               \<lparr>Reference_Id = FullName (Create_Repository giteaEvent),
                                Reference_Source = []\<rparr> branchCreatedEvent))
                 else
                   Inl (Errorf (''unsupported Gitea create ref type: ''
                                  @ Create_RefType giteaEvent))) of
             Inl err \<Rightarrow> Err err
           | Inr cdEvent \<Rightarrow>
               (case addSourcesFromRepositoryUrl env (CreateEvent giteaEvent) cdEvent of
                  Panic p \<Rightarrow> Panic p
                | Err err \<Rightarrow> Err err
                | Ok (cdEvent1, _) \<Rightarrow>
                    let cdEvent2 = SetSubjectId (Create_Ref giteaEvent) cdEvent1 in
                    (case SetCustomData env ''application/json''
                            (Plain (CreateEvent giteaEvent)) cdEvent2 of
                       Inl err \<Rightarrow> Err err
                     | Inr cdEvent3 \<Rightarrow>
                         (case addGiteaEventAsCustomData env (CreateEvent giteaEvent)
                                 cdEvent3 of
                            Inl err \<Rightarrow> Err err
                          | Inr cdEvent4 \<Rightarrow> Ok cdEvent4)))))"

text \<open>\<open>GiteaDeleteTranslator.Translate\<close>.\<close>

definition GiteaDeleteTranslator_Translate :: "libs \<Rightarrow> bytes \<Rightarrow> CDEvent result" where
  "GiteaDeleteTranslator_Translate env data =
     (case Unmarshal_Delete env data of
        Inl err \<Rightarrow> Err err
      | Inr giteaEvent \<Rightarrow>
          (case (if Delete_RefType giteaEvent = ''branch'' then
                   (case NewBranchDeletedEvent env of
                      Inl err \<Rightarrow> Inl err
                    | Inr branchDeletedEvent \<Rightarrow>
                        Inr (SetSubjectRepository
                               \<lparr>Reference_Id = FullName (Delete_Repository giteaEvent),
                                Reference_Source = []\<rparr> branchDeletedEvent))
                 else
                   Inl (Errorf (''unsupported Gitea create ref type: ''
                                  @ Delete_RefType giteaEvent))) of
             Inl err \<Rightarrow> Err err
           | Inr cdEvent \<Rightarrow>
               (case addSourcesFromRepositoryUrl env (DeleteEvent giteaEvent) cdEvent of
                  Panic p \<Rightarrow> Panic p
                | Err err \<Rightarrow> Err err
                | Ok (cdEvent1, _) \<Rightarrow>
                    let cdEvent2 = SetSubjectId (Delete_Ref giteaEvent) cdEvent1 in
                    (case addGiteaEventAsCustomData env (DeleteEvent giteaEvent) cdEvent2 of
                       Inl err \<Rightarrow> Err err
                     | Inr cdEvent3 \<Rightarrow> Ok cdEvent3))))"

text \<open>
  The interface \<^verbatim>\<open>CDEventTranslator\<close> has these four implementations; a call of its method
  runs the one of the value's type.
\<close>

datatype translator =
    GiteaPushTranslator
  | GiteaPullRequestTranslator
  | GiteaCreateTranslator
  | GiteaDeleteTranslator

fun Translate :: "libs \<Rightarrow> translator \<Rightarrow> bytes \<Rightarrow> CDEvent result" where
  "Translate env GiteaPushTranslator data = GiteaPushTranslator_Translate env data"
| "Translate env GiteaPullRequestTranslator data = GiteaPullRequestTranslator_Translate env data"
| "Translate env GiteaCreateTranslator data = GiteaCreateTranslator_Translate env data"
| "Translate env GiteaDeleteTranslator data = GiteaDeleteTranslator_Translate env data"

text \<open>The registry that \<open>main\<close> builds and hands to \<open>NewCDEventAdapter\<close>.\<close>

definition main_translators :: "string \<rightharpoonup> translator" where
  "main_translators =
     [''gitea.push'' \<mapsto> GiteaPushTranslator,
      ''gitea.pull_request'' \<mapsto> GiteaPullRequestTranslator,
      ''gitea.create'' \<mapsto> GiteaCreateTranslator,
      ''gitea.delete'' \<mapsto> GiteaDeleteTranslator]"

section \<open>The adapter (internal/adapter/adapter.go)\<close>

text \<open>\<^verbatim>\<open>jetstream.MsgMetadata\<close>, the fields that \<open>Process\<close> logs.\<close>

record MsgMetadata =
  Sequence_Stream :: nat
  Sequence_Consumer :: nat
  NumDelivered :: nat
  Stream :: string
  Consumer :: string

text \<open>
  The interface \<^verbatim>\<open>JetstreamMsg\<close>: a message is what its four methods return.
  \<open>Ack\<close> is the result of acknowledging (nil or an error); calling it is an effect, which
  \<open>Process\<close> records in its trace.
\<close>

record JetstreamMsg =
  Data :: bytes
  Subject :: string
  Ack :: "error option"
  Metadata :: "error + MsgMetadata"

text \<open>
  The adapter holds a publisher and the translator registry. A publisher (the interface
  \<^verbatim>\<open>CDEventPublisher\<close>) is the result of its \<open>Publish\<close> for each event; a registry maps a
  routing key to a translator \<open>'t\<close>, and the interface method \<open>Translate\<close> of a translator is
  passed to \<open>Process\<close> as the function \<open>translate\<close>. The logger is the trace below.
\<close>

record 't CDEventAdapter =
  publisher :: "CDEvent \<Rightarrow> error option"
  translators :: "string \<rightharpoonup> 't"

text \<open>
  The observable effects of one call of \<open>Process\<close>, in the order they happen: a debug log
  record (message and attributes), a call of a translator's \<open>Translate\<close> with its argument,
  a call of the publisher's \<open>Publish\<close> with its argument, and a call of the message's
  \<open>Ack\<close>.
\<close>

datatype attr = StringAttr string | Uint64Attr nat | TypeAttr CDEventType

datatype 't call =
    LogDebug string "(string \<times> attr) list"
  | TranslateCall 't bytes
  | PublishCall CDEvent
  | AckCall

text \<open>
  The body of \<open>Process\<close>, without the deferred acknowledgment: the value returned (nil is
  \<open>Ok ()\<close>) or the panic, and the trace of effects. \<open>unmarshal\<close> is
  \<^verbatim>\<open>json.Unmarshal\<close> into a \<^verbatim>\<open>map[string]interface{}\<close>, whose result is only tested for
  an error. A translator does not return a nil event with a nil error (none of the
  repository's does), so the event whose type is logged exists.
\<close>

definition Process_body ::
  "(bytes \<Rightarrow> error option) \<Rightarrow> ('t \<Rightarrow> bytes \<Rightarrow> CDEvent result) \<Rightarrow>
   't CDEventAdapter \<Rightarrow> JetstreamMsg \<Rightarrow> unit result \<times> 't call list" where
  "Process_body unmarshal translate c msg =
     (case Metadata msg of
        Inl err \<Rightarrow> (Err err, [])
      | Inr metadata \<Rightarrow>
          let log1 = LogDebug ''Processing incoming webhook message''
                [(''subject'', StringAttr (Subject msg)),
                 (''stream_seq'', Uint64Attr (Sequence_Stream metadata)),
                 (''num_delivered'', Uint64Attr (NumDelivered metadata)),
                 (''stream'', StringAttr (Stream metadata)),
                 (''consumer'', StringAttr (Consumer metadata))]
          in
          (case unmarshal (Data msg) of
             Some err \<Rightarrow> (Err err, [log1])
           | None \<Rightarrow>
               let subjectParts = Split (Subject msg) (CHR ''.'') in
               if length subjectParts < 2 then
                 (Err (Errorf (''unable to determine type of message as subject has to few parts: ''
                         @ Subject msg)), [log1])
               else
                 let eventSubject = Join (drop 1 subjectParts) ''.'' in
                 (case translators c eventSubject of
                    None \<Rightarrow>
                      (Err (Errorf (''no translator found for subject: '' @ eventSubject)), [log1])
                  | Some translator \<Rightarrow>
                      (case translate translator (Data msg) of
                         Panic p \<Rightarrow> (Panic p, [log1, TranslateCall translator (Data msg)])
                       | Err err \<Rightarrow> (Err err, [log1, TranslateCall translator (Data msg)])
                       | Ok cdEvent \<Rightarrow>
                           let log2 = LogDebug ''Translated incoming webhook message into CDEvent''
                                 [(''type'', TypeAttr (Context_Type cdEvent)),
                                  (''subject'', StringAttr (Subject msg)),
                                  (''stream_seq'', Uint64Attr (Sequence_Stream metadata)),
                                  (''num_delivered'', Uint64Attr (NumDelivered metadata)),
                                  (''stream'', StringAttr (Stream metadata)),
                                  (''consumer'', StringAttr (Consumer metadata))];
                               tr = [log1, TranslateCall translator (Data msg), log2,
                                     PublishCall cdEvent]
                           in
                           (case publisher c cdEvent of
                              Some err \<Rightarrow> (Err err, tr)
                            | None \<Rightarrow> (Ok (), tr))))))"

text \<open>
  \<open>Process\<close>: the first statement defers \<^verbatim>\<open>msg.Ack()\<close>, so the acknowledgment runs when
  the body returns or panics, and its own result is dropped.
\<close>

definition Process ::
  "(bytes \<Rightarrow> error option) \<Rightarrow> ('t \<Rightarrow> bytes \<Rightarrow> CDEvent result) \<Rightarrow>
   't CDEventAdapter \<Rightarrow> JetstreamMsg \<Rightarrow> unit result \<times> 't call list" where
  "Process unmarshal translate c msg =
     (case Process_body unmarshal translate c msg of (r, tr) \<Rightarrow> (r, tr @ [AckCall]))"

text \<open>Reading a trace: the translator calls, the published events, the acknowledgments.\<close>

fun translate_calls :: "'t call list \<Rightarrow> ('t \<times> bytes) list" where
  "translate_calls [] = []"
| "translate_calls (TranslateCall t d # cs) = (t, d) # translate_calls cs"
| "translate_calls (_ # cs) = translate_calls cs"

fun publish_calls :: "'t call list \<Rightarrow> CDEvent list" where
  "publish_calls [] = []"
| "publish_calls (PublishCall e # cs) = e # publish_calls cs"
| "publish_calls (_ # cs) = publish_calls cs"

fun ack_calls :: "'t call list \<Rightarrow> nat" where
  "ack_calls [] = 0"
| "ack_calls (AckCall # cs) = Suc (ack_calls cs)"
| "ack_calls (_ # cs) = ack_calls cs"

section \<open>An instance of the libraries\<close>

text \<open>
  The properties of the code are proved for every value of the record \<open>libs\<close>. To run the
  code on concrete messages, this section defines one instance, \<open>go_libs\<close>, modelled on the
  documented behaviour of \<^verbatim>\<open>encoding/json\<close> and \<^verbatim>\<open>net/url\<close>.
\<close>

subsection \<open>JSON texts\<close>

text \<open>
  A reader for JSON texts with the grammar that \<^verbatim>\<open>encoding/json\<close> accepts: white space is
  space, tab, line feed and carriage return; a string has no raw control character, its
  escapes are decoded, \<^verbatim>\<open>\u\<close> escapes to UTF-8 with surrogate pairs combined and a lone
  surrogate replaced by U+FFFD, and every byte that does not start a well-formed UTF-8
  sequence is replaced by U+FFFD; a number has no leading zero; arrays and objects nest
  at most 10000 deep. The first argument of \<open>json_value\<close> bounds the recursion (\<open>json_parse\<close>
  gives it two for each byte of the text, which no text exhausts), the second counts the
  arrays and objects that enclose the value.
\<close>

datatype json =
    JNull
  | JBool bool
  | JNumber string
  | JString string
  | JArray "json list"
  | JObject "(string \<times> json) list"

definition is_space :: "char \<Rightarrow> bool" where
  "is_space c = (c = CHR '' '' \<or> c = CHR 0x09 \<or> c = CHR 0x0A \<or> c = CHR 0x0D)"

definition skip_space :: "string \<Rightarrow> string" where
  "skip_space s = dropWhile is_space s"

definition is_digit :: "char \<Rightarrow> bool" where
  "is_digit c = (48 \<le> (of_char c :: nat) \<and> (of_char c :: nat) \<le> 57)"

definition hex_value :: "char \<Rightarrow> nat option" where
  "hex_value c =
     (let n = (of_char c :: nat) in
      if 48 \<le> n \<and> n \<le> 57 then Some (n - 48)
      else if 97 \<le> n \<and> n \<le> 102 then Some (n - 87)
      else if 65 \<le> n \<and> n \<le> 70 then Some (n - 55)
      else None)"

fun getu4 :: "string \<Rightarrow> nat option" where
  "getu4 (a # b # c # d # _) =
     (case (hex_value a, hex_value b, hex_value c, hex_value d) of
        (Some x, Some y, Some z, Some w) \<Rightarrow> Some (((x * 16 + y) * 16 + z) * 16 + w)
      | _ \<Rightarrow> None)"
| "getu4 _ = None"

definition EncodeRune :: "nat \<Rightarrow> string" where
  "EncodeRune r =
     (if r < 0x80 then [char_of r]
      else if r < 0x800 then [char_of (0xC0 + r div 0x40), char_of (0x80 + r mod 0x40)]
      else if r < 0x10000 then
        [char_of (0xE0 + r div 0x1000), char_of (0x80 + r div 0x40 mod 0x40),
         char_of (0x80 + r mod 0x40)]
      else
        [char_of (0xF0 + r div 0x40000), char_of (0x80 + r div 0x1000 mod 0x40),
         char_of (0x80 + r div 0x40 mod 0x40), char_of (0x80 + r mod 0x40)])"

definition escaped_char :: "char \<Rightarrow> char option" where
  "escaped_char e =
     (if e = CHR 0x22 \<or> e = CHR 0x5C \<or> e = CHR ''/'' then Some e
      else if e = CHR ''b'' then Some (CHR 0x08)
      else if e = CHR ''f'' then Some (CHR 0x0C)
      else if e = CHR ''n'' then Some (CHR 0x0A)
      else if e = CHR ''r'' then Some (CHR 0x0D)
      else if e = CHR ''t'' then Some (CHR 0x09)
      else None)"

definition low_surrogate :: "string \<Rightarrow> nat option" where
  "low_surrogate s =
     (case s of
        a # b # hs \<Rightarrow>
          if a = CHR 0x5C \<and> b = CHR ''u'' then
            (case getu4 hs of
               Some lo \<Rightarrow> if 0xDC00 \<le> lo \<and> lo < 0xE000 then Some lo else None
             | None \<Rightarrow> None)
          else None
      | _ \<Rightarrow> None)"

text \<open>
  \<^verbatim>\<open>utf8.DecodeRune\<close>, as far as the reader needs it: for a byte above 0x7F that starts a
  well-formed sequence, the number of bytes that follow it in the sequence.
\<close>

definition is_cont :: "char \<Rightarrow> bool" where
  "is_cont c = (0x80 \<le> (of_char c :: nat) \<and> (of_char c :: nat) \<le> 0xBF)"

definition utf8_tail :: "char \<Rightarrow> string \<Rightarrow> nat option" where
  "utf8_tail c cs =
     (if 0xC2 \<le> (of_char c :: nat) \<and> (of_char c :: nat) \<le> 0xDF then
        (case cs of
           c1 # _ \<Rightarrow> if is_cont c1 then Some 1 else None
         | _ \<Rightarrow> None)
      else if 0xE0 \<le> (of_char c :: nat) \<and> (of_char c :: nat) \<le> 0xEF then
        (case cs of
           c1 # c2 # _ \<Rightarrow>
             if is_cont c1 \<and> is_cont c2 \<and>
                (c = CHR 0xE0 \<longrightarrow> 0xA0 \<le> (of_char c1 :: nat)) \<and>
                (c = CHR 0xED \<longrightarrow> (of_char c1 :: nat) \<le> 0x9F)
             then Some 2 else None
         | _ \<Rightarrow> None)
      else if 0xF0 \<le> (of_char c :: nat) \<and> (of_char c :: nat) \<le> 0xF4 then
        (case cs of
           c1 # c2 # c3 # _ \<Rightarrow>
             if is_cont c1 \<and> is_cont c2 \<and> is_cont c3 \<and>
                (c = CHR 0xF0 \<longrightarrow> 0x90 \<le> (of_char c1 :: nat)) \<and>
                (c = CHR 0xF4 \<longrightarrow> (of_char c1 :: nat) \<le> 0x8F)
             then Some 3 else None
         | _ \<Rightarrow> None)
      else None)"

fun string_body :: "string \<Rightarrow> (string \<times> string) option" where
  "string_body [] = None"
| "string_body (c # cs) =
     (if c = CHR 0x22 then Some ([], cs)
      else if c = CHR 0x5C then
        (case cs of
           [] \<Rightarrow> None
         | e # es \<Rightarrow>
             if e = CHR ''u'' then
               (case getu4 es of
                  None \<Rightarrow> None
                | Some rr \<Rightarrow>
                    (case (if 0xD800 \<le> rr \<and> rr < 0xDC00 then low_surrogate (drop 4 es)
                           else None) of
                       Some lo \<Rightarrow>
                         (case string_body (drop 10 es) of
                            None \<Rightarrow> None
                          | Some (str, rest) \<Rightarrow>
                              Some (EncodeRune (0x10000 + (rr - 0xD800) * 0x400 + (lo - 0xDC00))
                                      @ str, rest))
                     | None \<Rightarrow>
                         (case string_body (drop 4 es) of
                            None \<Rightarrow> None
                          | Some (str, rest) \<Rightarrow>
                              Some (EncodeRune (if 0xD800 \<le> rr \<and> rr < 0xE000 then 0xFFFD
                                                else rr) @ str, rest))))
             else
               (case escaped_char e of
                  None \<Rightarrow> None
                | Some ch \<Rightarrow>
                    (case string_body es of
                       None \<Rightarrow> None
                     | Some (str, rest) \<Rightarrow> Some (ch # str, rest))))
      else if (of_char c :: nat) < 0x20 then None
      else if (of_char c :: nat) < 0x80 then
        (case string_body cs of
           None \<Rightarrow> None
         | Some (str, rest) \<Rightarrow> Some (c # str, rest))
      else
        (case utf8_tail c cs of
           None \<Rightarrow>
             (case string_body cs of
                None \<Rightarrow> None
              | Some (str, rest) \<Rightarrow> Some (CHR 0xEF # CHR 0xBF # CHR 0xBD # str, rest))
         | Some k \<Rightarrow>
             (case string_body (drop k cs) of
                None \<Rightarrow> None
              | Some (str, rest) \<Rightarrow> Some (c # take k cs @ str, rest))))"

definition digits1 :: "string \<Rightarrow> string option" where
  "digits1 s =
     (case s of
        [] \<Rightarrow> None
      | c # cs \<Rightarrow> if is_digit c then Some (dropWhile is_digit cs) else None)"

definition number_rest :: "string \<Rightarrow> string option" where
  "number_rest s =
     (let s1 = (case s of [] \<Rightarrow> s | c # cs \<Rightarrow> if c = CHR ''-'' then cs else s) in
      case s1 of
        [] \<Rightarrow> None
      | c # cs \<Rightarrow>
          (case (if c = CHR ''0'' then Some cs
                 else if is_digit c then Some (dropWhile is_digit cs)
                 else None) of
             None \<Rightarrow> None
           | Some s2 \<Rightarrow>
               (case (case s2 of
                        [] \<Rightarrow> Some s2
                      | d # ds \<Rightarrow> if d = CHR ''.'' then digits1 ds else Some s2) of
                  None \<Rightarrow> None
                | Some s3 \<Rightarrow>
                    (case s3 of
                       [] \<Rightarrow> Some s3
                     | e # es \<Rightarrow>
                         if e = CHR ''e'' \<or> e = CHR ''E'' then
                           digits1 (case es of
                                      [] \<Rightarrow> es
                                    | g # gs \<Rightarrow> if g = CHR ''+'' \<or> g = CHR ''-'' then gs else es)
                         else Some s3))))"

definition literal :: "string \<Rightarrow> string \<Rightarrow> string option" where
  "literal w s = (if take (length w) s = w then Some (drop (length w) s) else None)"

fun json_value :: "nat \<Rightarrow> nat \<Rightarrow> string \<Rightarrow> (json \<times> string) option"
  and json_elements :: "nat \<Rightarrow> nat \<Rightarrow> string \<Rightarrow> (json list \<times> string) option"
  and json_members :: "nat \<Rightarrow> nat \<Rightarrow> string \<Rightarrow> ((string \<times> json) list \<times> string) option" where
  "json_value 0 depth s = None"
| "json_value (Suc n) depth s =
     (case skip_space s of
        [] \<Rightarrow> None
      | c # cs \<Rightarrow>
          if c = CHR ''{'' then
            (if 10000 \<le> depth then None
             else
               (case skip_space cs of
                  [] \<Rightarrow> None
                | d # ds \<Rightarrow>
                    if d = CHR ''}'' then Some (JObject [], ds)
                    else (case json_members n (Suc depth) (d # ds) of
                            None \<Rightarrow> None
                          | Some (ms, rest) \<Rightarrow> Some (JObject ms, rest))))
          else if c = CHR ''['' then
            (if 10000 \<le> depth then None
             else
               (case skip_space cs of
                  [] \<Rightarrow> None
                | d # ds \<Rightarrow>
                    if d = CHR '']'' then Some (JArray [], ds)
                    else (case json_elements n (Suc depth) (d # ds) of
                            None \<Rightarrow> None
                          | Some (vs, rest) \<Rightarrow> Some (JArray vs, rest))))
          else if c = CHR 0x22 then
            (case string_body cs of
               None \<Rightarrow> None
             | Some (str, rest) \<Rightarrow> Some (JString str, rest))
          else if c = CHR ''t'' then map_option (Pair (JBool True)) (literal ''true'' (c # cs))
          else if c = CHR ''f'' then map_option (Pair (JBool False)) (literal ''false'' (c # cs))
          else if c = CHR ''n'' then map_option (Pair JNull) (literal ''null'' (c # cs))
          else
            (case number_rest (c # cs) of
               None \<Rightarrow> None
             | Some rest \<Rightarrow>
                 Some (JNumber (take (length (c # cs) - length rest) (c # cs)), rest)))"
| "json_elements 0 depth s = None"
| "json_elements (Suc n) depth s =
     (case json_value n depth s of
        None \<Rightarrow> None
      | Some (v, r) \<Rightarrow>
          (case skip_space r of
             [] \<Rightarrow> None
           | c # cs \<Rightarrow>
               if c = CHR '','' then
                 (case json_elements n depth cs of
                    None \<Rightarrow> None
                  | Some (vs, rest) \<Rightarrow> Some (v # vs, rest))
               else if c = CHR '']'' then Some ([v], cs)
               else None))"
| "json_members 0 depth s = None"
| "json_members (Suc n) depth s =
     (case skip_space s of
        [] \<Rightarrow> None
      | q # qs \<Rightarrow>
          if q \<noteq> CHR 0x22 then None
          else
            (case string_body qs of
               None \<Rightarrow> None
             | Some (k, r) \<Rightarrow>
                 (case skip_space r of
                    [] \<Rightarrow> None
                  | c # cs \<Rightarrow>
                      if c \<noteq> CHR '':'' then None
                      else
                        (case json_value n depth cs of
                           None \<Rightarrow> None
                         | Some (v, r') \<Rightarrow>
                             (case skip_space r' of
                                [] \<Rightarrow> None
                              | e # es \<Rightarrow>
                                  if e = CHR '','' then
                                    (case json_members n depth es of
                                       None \<Rightarrow> None
                                     | Some (ms, rest) \<Rightarrow> Some ((k, v) # ms, rest))
                                  else if e = CHR ''}'' then Some ([(k, v)], es)
                                  else None)))))"

definition json_parse :: "bytes \<Rightarrow> json option" where
  "json_parse s =
     (case json_value (Suc (Suc (length s + length s))) 0 s of
        None \<Rightarrow> None
      | Some (v, rest) \<Rightarrow> if skip_space rest = [] then Some v else None)"

subsection \<open>Decoding into a map and into the payload structs\<close>

text \<open>
  A number that is decoded into an \<^verbatim>\<open>interface{}\<close> becomes a \<^verbatim>\<open>float64\<close>, through
  \<^verbatim>\<open>strconv.ParseFloat\<close>, which fails on a number that rounds to infinity: one whose
  absolute value is at least \<open>2 ^ 1024 - 2 ^ 970\<close>, half a unit in the last place above the
  largest \<^verbatim>\<open>float64\<close>. The literal has the syntax of a JSON number; its value is its
  digits, without the point, times the power of ten of its exponent less the number of
  digits after the point.
\<close>

definition digits_value :: "string \<Rightarrow> int" where
  "digits_value ds = foldl (\<lambda>a c. a * 10 + (int (of_char c) - 48)) 0 ds"

definition float64_overflows :: "string \<Rightarrow> bool" where
  "float64_overflows lit =
     (let body = (case lit of [] \<Rightarrow> lit | c # cs \<Rightarrow> if c = CHR ''-'' then cs else lit);
          ip = takeWhile is_digit body;
          r1 = dropWhile is_digit body;
          fp = (case r1 of [] \<Rightarrow> [] | c # cs \<Rightarrow> if c = CHR ''.'' then takeWhile is_digit cs else []);
          r2 = (case r1 of [] \<Rightarrow> [] | c # cs \<Rightarrow> if c = CHR ''.'' then dropWhile is_digit cs else r1);
          ex = (case r2 of
                  [] \<Rightarrow> 0
                | e # es \<Rightarrow>
                    (case es of
                       [] \<Rightarrow> 0
                     | g # gs \<Rightarrow>
                         if g = CHR ''-'' then - digits_value gs
                         else if g = CHR ''+'' then digits_value gs
                         else digits_value es));
          m = digits_value (ip @ fp);
          k = ex - int (length fp)
      in m \<noteq> 0 \<and>
         (if 0 \<le> k then 2 ^ 1024 - 2 ^ 970 \<le> m * 10 ^ nat k
          else (2 ^ 1024 - 2 ^ 970) * 10 ^ nat (- k) \<le> m))"

fun numbers_fit :: "json \<Rightarrow> bool"
  and numbers_fit_list :: "json list \<Rightarrow> bool"
  and numbers_fit_members :: "(string \<times> json) list \<Rightarrow> bool" where
  "numbers_fit JNull = True"
| "numbers_fit (JBool b) = True"
| "numbers_fit (JNumber lit) = (\<not> float64_overflows lit)"
| "numbers_fit (JString str) = True"
| "numbers_fit (JArray vs) = numbers_fit_list vs"
| "numbers_fit (JObject ms) = numbers_fit_members ms"
| "numbers_fit_list [] = True"
| "numbers_fit_list (v # vs) = (numbers_fit v \<and> numbers_fit_list vs)"
| "numbers_fit_members [] = True"
| "numbers_fit_members (m # ms) = (numbers_fit (snd m) \<and> numbers_fit_members ms)"

text \<open>
  \<^verbatim>\<open>json.Unmarshal(data, &v)\<close> for a \<^verbatim>\<open>map[string]interface{}\<close>: a syntax error for a text
  that is not JSON, no error for \<^verbatim>\<open>null\<close>, a type error for any other value that is not
  an object, and for an object a type error when a number anywhere in it does not fit a
  \<^verbatim>\<open>float64\<close>.
\<close>

definition Unmarshal_map_go :: "bytes \<Rightarrow> error option" where
  "Unmarshal_map_go data =
     (case json_parse data of
        None \<Rightarrow> Some SyntaxError
      | Some JNull \<Rightarrow> None
      | Some (JObject ms) \<Rightarrow> if numbers_fit_members ms then None else Some UnmarshalTypeError
      | Some _ \<Rightarrow> Some UnmarshalTypeError)"

text \<open>
  Decoding into a struct takes the members of the object in order; a member whose key
  matches a field is decoded into it, other members are skipped; \<^verbatim>\<open>null\<close> leaves a
  string, a number or a struct as it is and makes a slice nil; a value of another kind
  than the field's is a type error, and so is a number that is not a 64-bit integer
  where an integer is expected. The keys are those of the payloads in the repository's
  tests. A key matches a field when the two are equal under Unicode simple case folding:
  for the ASCII names of these fields, when the key is the name up to the case of its
  letters, with U+017F (long s) for an \<^verbatim>\<open>s\<close> and U+212A (Kelvin sign) for a \<^verbatim>\<open>k\<close>.
\<close>

definition to_lower :: "char \<Rightarrow> char" where
  "to_lower c =
     (if 65 \<le> (of_char c :: nat) \<and> (of_char c :: nat) \<le> 90
      then char_of ((of_char c :: nat) + 32) else c)"

fun fold_name :: "string \<Rightarrow> string" where
  "fold_name [] = []"
| "fold_name (c # cs) =
     (if c = CHR 0xC5 \<and> take 1 cs = [CHR 0xBF] then CHR ''s'' # fold_name (drop 1 cs)
      else if c = CHR 0xE2 \<and> take 2 cs = [CHR 0x84, CHR 0xAA] then
        CHR ''k'' # fold_name (drop 2 cs)
      else to_lower c # fold_name cs)"

definition key_is :: "string \<Rightarrow> string \<Rightarrow> bool" where
  "key_is k name = (fold_name k = name)"

definition int_literal :: "string \<Rightarrow> int option" where
  "int_literal s =
     (let ds = (case s of [] \<Rightarrow> s | c # cs \<Rightarrow> if c = CHR ''-'' then cs else s);
          n = foldl (\<lambda>a c. a * 10 + (int (of_char c) - 48)) 0 ds;
          i = (if ds = s then n else - n)
      in if ds \<noteq> [] \<and> list_all is_digit ds \<and> - (2 ^ 63) \<le> i \<and> i < 2 ^ 63
         then Some i else None)"

definition decode_string :: "json \<Rightarrow> string \<Rightarrow> error + string" where
  "decode_string v cur =
     (case v of JNull \<Rightarrow> Inr cur | JString str \<Rightarrow> Inr str | _ \<Rightarrow> Inl UnmarshalTypeError)"

definition decode_int :: "json \<Rightarrow> int \<Rightarrow> error + int" where
  "decode_int v cur =
     (case v of
        JNull \<Rightarrow> Inr cur
      | JNumber lit \<Rightarrow>
          (case int_literal lit of None \<Rightarrow> Inl UnmarshalTypeError | Some i \<Rightarrow> Inr i)
      | _ \<Rightarrow> Inl UnmarshalTypeError)"

definition decode_struct ::
  "((string \<times> json) list \<Rightarrow> 'a \<Rightarrow> error + 'a) \<Rightarrow> json \<Rightarrow> 'a \<Rightarrow> error + 'a" where
  "decode_struct dec v cur =
     (case v of JNull \<Rightarrow> Inr cur | JObject ms \<Rightarrow> dec ms cur | _ \<Rightarrow> Inl UnmarshalTypeError)"

fun decode_repository :: "(string \<times> json) list \<Rightarrow> GiteaRepository \<Rightarrow> error + GiteaRepository" where
  "decode_repository [] r = Inr r"
| "decode_repository ((k, v) # ms) r =
     (if key_is k ''full_name'' then
        (case decode_string v (FullName r) of
           Inl e \<Rightarrow> Inl e
         | Inr x \<Rightarrow> decode_repository ms (r\<lparr>FullName := x\<rparr>))
      else if key_is k ''html_url'' then
        (case decode_string v (HtmlUrl r) of
           Inl e \<Rightarrow> Inl e
         | Inr x \<Rightarrow> decode_repository ms (r\<lparr>HtmlUrl := x\<rparr>))
      else decode_repository ms r)"

fun decode_commit :: "(string \<times> json) list \<Rightarrow> GiteaCommit \<Rightarrow> error + GiteaCommit" where
  "decode_commit [] r = Inr r"
| "decode_commit ((k, v) # ms) r =
     (if key_is k ''id'' then
        (case decode_string v (Commit_Id r) of
           Inl e \<Rightarrow> Inl e
         | Inr x \<Rightarrow> decode_commit ms (r\<lparr>Commit_Id := x\<rparr>))
      else decode_commit ms r)"

text \<open>
  An array is decoded into a slice element by element, each into the element that the
  backing array of the slice holds at that index, or into a zero element beyond it; the
  slice then has the length of the array. \<open>backing\<close> is the backing array of the slice
  \<open>Commits\<close>: the elements of the slice and, after them, those that an earlier, longer
  array left behind. An empty array and \<^verbatim>\<open>null\<close> give the slice a new backing array.
\<close>

fun decode_commits :: "json list \<Rightarrow> GiteaCommit list \<Rightarrow> error + GiteaCommit list" where
  "decode_commits [] backing = Inr []"
| "decode_commits (v # vs) backing =
     (case decode_struct decode_commit v
             (case backing of [] \<Rightarrow> \<lparr>Commit_Id = []\<rparr> | b # _ \<Rightarrow> b) of
        Inl e \<Rightarrow> Inl e
      | Inr c \<Rightarrow>
          (case decode_commits vs (drop 1 backing) of
             Inl e \<Rightarrow> Inl e
           | Inr cs \<Rightarrow> Inr (c # cs)))"

fun decode_push ::
  "(string \<times> json) list \<Rightarrow> GiteaPushEvent \<times> GiteaCommit list \<Rightarrow>
   error + GiteaPushEvent \<times> GiteaCommit list" where
  "decode_push [] (r, backing) = Inr (r, backing)"
| "decode_push ((k, v) # ms) (r, backing) =
     (if key_is k ''total_commits'' then
        (case decode_int v (TotalCommits r) of
           Inl e \<Rightarrow> Inl e
         | Inr x \<Rightarrow> decode_push ms (r\<lparr>TotalCommits := x\<rparr>, backing))
      else if key_is k ''commits'' then
        (case v of
           JNull \<Rightarrow> decode_push ms (r\<lparr>Commits := []\<rparr>, [])
         | JArray vs \<Rightarrow>
             (case decode_commits vs backing of
                Inl e \<Rightarrow> Inl e
              | Inr x \<Rightarrow>
                  decode_push ms
                    (r\<lparr>Commits := x\<rparr>, if x = [] then [] else x @ drop (length x) backing))
         | _ \<Rightarrow> Inl UnmarshalTypeError)
      else if key_is k ''repository'' then
        (case decode_struct decode_repository v (Push_Repository r) of
           Inl e \<Rightarrow> Inl e
         | Inr x \<Rightarrow> decode_push ms (r\<lparr>Push_Repository := x\<rparr>, backing))
      else decode_push ms (r, backing))"

fun decode_pull :: "(string \<times> json) list \<Rightarrow> GiteaPullRequest \<Rightarrow> error + GiteaPullRequest" where
  "decode_pull [] r = Inr r"
| "decode_pull ((k, v) # ms) r =
     (if key_is k ''id'' then
        (case decode_int v (PullRequest_Id r) of
           Inl e \<Rightarrow> Inl e
         | Inr x \<Rightarrow> decode_pull ms (r\<lparr>PullRequest_Id := x\<rparr>))
      else decode_pull ms r)"

fun decode_pull_request ::
  "(string \<times> json) list \<Rightarrow> GiteaPullRequestEvent \<Rightarrow> error + GiteaPullRequestEvent" where
  "decode_pull_request [] r = Inr r"
| "decode_pull_request ((k, v) # ms) r =
     (if key_is k ''action'' then
        (case decode_string v (Action r) of
           Inl e \<Rightarrow> Inl e
         | Inr x \<Rightarrow> decode_pull_request ms (r\<lparr>Action := x\<rparr>))
      else if key_is k ''pull_request'' then
        (case decode_struct decode_pull v (PullRequest r) of
           Inl e \<Rightarrow> Inl e
         | Inr x \<Rightarrow> decode_pull_request ms (r\<lparr>PullRequest := x\<rparr>))
      else if key_is k ''repository'' then
        (case decode_struct decode_repository v (PullRequest_Repository r) of
           Inl e \<Rightarrow> Inl e
         | Inr x \<Rightarrow> decode_pull_request ms (r\<lparr>PullRequest_Repository := x\<rparr>))
      else decode_pull_request ms r)"

fun decode_create :: "(string \<times> json) list \<Rightarrow> GiteaCreateEvent \<Rightarrow> error + GiteaCreateEvent" where
  "decode_create [] r = Inr r"
| "decode_create ((k, v) # ms) r =
     (if key_is k ''ref_type'' then
        (case decode_string v (Create_RefType r) of
           Inl e \<Rightarrow> Inl e
         | Inr x \<Rightarrow> decode_create ms (r\<lparr>Create_RefType := x\<rparr>))
      else if key_is k ''ref'' then
        (case decode_string v (Create_Ref r) of
           Inl e \<Rightarrow> Inl e
         | Inr x \<Rightarrow> decode_create ms (r\<lparr>Create_Ref := x\<rparr>))
      else if key_is k ''repository'' then
        (case decode_struct decode_repository v (Create_Repository r) of
           Inl e \<Rightarrow> Inl e
         | Inr x \<Rightarrow> decode_create ms (r\<lparr>Create_Repository := x\<rparr>))
      else decode_create ms r)"

fun decode_delete :: "(string \<times> json) list \<Rightarrow> GiteaDeleteEvent \<Rightarrow> error + GiteaDeleteEvent" where
  "decode_delete [] r = Inr r"
| "decode_delete ((k, v) # ms) r =
     (if key_is k ''ref_type'' then
        (case decode_string v (Delete_RefType r) of
           Inl e \<Rightarrow> Inl e
         | Inr x \<Rightarrow> decode_delete ms (r\<lparr>Delete_RefType := x\<rparr>))
      else if key_is k ''ref'' then
        (case decode_string v (Delete_Ref r) of
           Inl e \<Rightarrow> Inl e
         | Inr x \<Rightarrow> decode_delete ms (r\<lparr>Delete_Ref := x\<rparr>))
      else if key_is k ''repository'' then
        (case decode_struct decode_repository v (Delete_Repository r) of
           Inl e \<Rightarrow> Inl e
         | Inr x \<Rightarrow> decode_delete ms (r\<lparr>Delete_Repository := x\<rparr>))
      else decode_delete ms r)"

text \<open>
  \<^verbatim>\<open>json.Unmarshal(data, &giteaEvent)\<close> for a struct that starts at its zero value: a syntax
  error for a text that is not JSON, the zero value for \<^verbatim>\<open>null\<close>.
\<close>

definition Unmarshal_struct ::
  "((string \<times> json) list \<Rightarrow> 'a \<Rightarrow> error + 'a) \<Rightarrow> 'a \<Rightarrow> bytes \<Rightarrow> error + 'a" where
  "Unmarshal_struct dec zero data =
     (case json_parse data of
        None \<Rightarrow> Inl SyntaxError
      | Some v \<Rightarrow> decode_struct dec v zero)"

definition zero_repository :: GiteaRepository where
  "zero_repository = \<lparr>FullName = [], HtmlUrl = []\<rparr>"

subsection \<open>Repository URLs\<close>

text \<open>
  \<^verbatim>\<open>url.Parse\<close> and \<^verbatim>\<open>url.JoinPath\<close> of \<^verbatim>\<open>net/url\<close>, with \<^verbatim>\<open>path.Join\<close> and \<^verbatim>\<open>path.Clean\<close>,
  function by function. Every error is \<open>UrlError\<close>: the translators do not look at it. A host
  may hold a port (\<^verbatim>\<open>git.example.com:3000\<close>); \<^verbatim>\<open>url.JoinPath\<close> parses its first argument as
  a URL, so \<^verbatim>\<open>url.JoinPath\<close> of such a host and a path reads the host as a scheme with an
  opaque rest and returns it as it is, without the path, or fails when the host is not a
  scheme (\<^verbatim>\<open>192.168.1.10:3000\<close>).
\<close>

definition is_alpha :: "char \<Rightarrow> bool" where
  "is_alpha c =
     ((65 \<le> (of_char c :: nat) \<and> (of_char c :: nat) \<le> 90) \<or>
      (97 \<le> (of_char c :: nat) \<and> (of_char c :: nat) \<le> 122))"

definition empty_URL :: URL where
  "empty_URL =
     \<lparr>Scheme = [], Opaque = [], User = None, Host = [], Path = [], RawPath = [],
      OmitHost = False, ForceQuery = False, RawQuery = [], Fragment = [], RawFragment = []\<rparr>"

datatype encoding =
    encodePath
  | encodePathSegment
  | encodeHost
  | encodeZone
  | encodeUserPassword
  | encodeQueryComponent
  | encodeFragment

text \<open>
  \<^verbatim>\<open>strings.Cut\<close> at the first separator, the same at the last one (\<^verbatim>\<open>strings.LastIndex\<close>),
  \<^verbatim>\<open>strings.HasPrefix\<close> and \<^verbatim>\<open>strings.HasSuffix\<close>. Where the string has no separator, \<open>Cut\<close>
  gives the string and the empty string; \<open>cut_last\<close> is only used where it has one.
\<close>

definition Cut :: "string \<Rightarrow> char \<Rightarrow> string \<times> string" where
  "Cut s sep = (takeWhile (\<lambda>c. c \<noteq> sep) s, drop 1 (dropWhile (\<lambda>c. c \<noteq> sep) s))"

definition cut_last :: "string \<Rightarrow> char \<Rightarrow> string \<times> string" where
  "cut_last s sep =
     (rev (drop 1 (dropWhile (\<lambda>c. c \<noteq> sep) (rev s))), rev (takeWhile (\<lambda>c. c \<noteq> sep) (rev s)))"

definition HasPrefix :: "string \<Rightarrow> string \<Rightarrow> bool" where
  "HasPrefix s p = (take (length p) s = p)"

definition HasSuffix :: "string \<Rightarrow> string \<Rightarrow> bool" where
  "HasSuffix s p = (length p \<le> length s \<and> drop (length s - length p) s = p)"

definition stringContainsCTLByte :: "string \<Rightarrow> bool" where
  "stringContainsCTLByte s = list_ex (\<lambda>c. (of_char c :: nat) < 32 \<or> c = CHR 0x7F) s"

text \<open>
  \<open>getScheme\<close>: the letters, digits, \<^verbatim>\<open>+\<close>, \<^verbatim>\<open>-\<close> and \<^verbatim>\<open>.\<close> before the first colon, when
  the first of them is a letter; otherwise there is no scheme, and a string that starts
  with a colon is an error. \<open>first\<close> says that the byte is the first one, \<open>acc\<close> holds the
  bytes read, last first.
\<close>

fun getScheme_from :: "bool \<Rightarrow> string \<Rightarrow> string \<Rightarrow> string \<Rightarrow> error + string \<times> string" where
  "getScheme_from first acc [] rawURL = Inr ([], rawURL)"
| "getScheme_from first acc (c # cs) rawURL =
     (if is_alpha c then getScheme_from False (c # acc) cs rawURL
      else if is_digit c \<or> c = CHR ''+'' \<or> c = CHR ''-'' \<or> c = CHR ''.'' then
        (if first then Inr ([], rawURL) else getScheme_from False (c # acc) cs rawURL)
      else if c = CHR '':'' then
        (if first then Inl UrlError else Inr (rev acc, cs))
      else Inr ([], rawURL))"

definition getScheme :: "string \<Rightarrow> error + string \<times> string" where
  "getScheme rawURL = getScheme_from True [] rawURL rawURL"

text \<open>
  \<open>shouldEscape\<close>, \<open>unescape\<close> and \<open>escape\<close>, for each part of a URL. A byte of an
  escape \<^verbatim>\<open>%hh\<close> is given by the bits of its two digits.
\<close>

definition host_subdelims :: string where
  "host_subdelims =
     [CHR ''!'', CHR ''$'', CHR ''&'', CHR 0x27, CHR ''('', CHR '')'', CHR ''*'', CHR ''+'',
      CHR '','', CHR '';'', CHR ''='', CHR '':'', CHR ''['', CHR '']'', CHR ''<'', CHR ''>'',
      CHR 0x22]"

definition shouldEscape :: "char \<Rightarrow> encoding \<Rightarrow> bool" where
  "shouldEscape c mode =
     (if is_alpha c \<or> is_digit c then False
      else if (mode = encodeHost \<or> mode = encodeZone) \<and> c \<in> set host_subdelims then False
      else if c \<in> set ''-_.~'' then False
      else if c \<in> set ''$&+,/:;=?@'' \<and> mode = encodePath then c = CHR ''?''
      else if c \<in> set ''$&+,/:;=?@'' \<and> mode = encodePathSegment then
        c = CHR ''/'' \<or> c = CHR '';'' \<or> c = CHR '','' \<or> c = CHR ''?''
      else if c \<in> set ''$&+,/:;=?@'' \<and> mode = encodeUserPassword then
        c = CHR ''@'' \<or> c = CHR ''/'' \<or> c = CHR ''?'' \<or> c = CHR '':''
      else if c \<in> set ''$&+,/:;=?@'' \<and> mode = encodeQueryComponent then True
      else if c \<in> set ''$&+,/:;=?@'' \<and> mode = encodeFragment then False
      else if mode = encodeFragment \<and> c \<in> set ''!()*'' then False
      else True)"

definition hex_bits :: "char \<Rightarrow> (bool \<times> bool \<times> bool \<times> bool) option" where
  "hex_bits c =
     (if c = CHR ''0'' then Some (False, False, False, False)
      else if c = CHR ''1'' then Some (True, False, False, False)
      else if c = CHR ''2'' then Some (False, True, False, False)
      else if c = CHR ''3'' then Some (True, True, False, False)
      else if c = CHR ''4'' then Some (False, False, True, False)
      else if c = CHR ''5'' then Some (True, False, True, False)
      else if c = CHR ''6'' then Some (False, True, True, False)
      else if c = CHR ''7'' then Some (True, True, True, False)
      else if c = CHR ''8'' then Some (False, False, False, True)
      else if c = CHR ''9'' then Some (True, False, False, True)
      else if c = CHR ''a'' \<or> c = CHR ''A'' then Some (False, True, False, True)
      else if c = CHR ''b'' \<or> c = CHR ''B'' then Some (True, True, False, True)
      else if c = CHR ''c'' \<or> c = CHR ''C'' then Some (False, False, True, True)
      else if c = CHR ''d'' \<or> c = CHR ''D'' then Some (True, False, True, True)
      else if c = CHR ''e'' \<or> c = CHR ''E'' then Some (False, True, True, True)
      else if c = CHR ''f'' \<or> c = CHR ''F'' then Some (True, True, True, True)
      else None)"

definition unhex_pair :: "char \<Rightarrow> char \<Rightarrow> char option" where
  "unhex_pair h1 h2 =
     (case (hex_bits h1, hex_bits h2) of
        (Some (a0, a1, a2, a3), Some (b0, b1, b2, b3)) \<Rightarrow> Some (Char b0 b1 b2 b3 a0 a1 a2 a3)
      | _ \<Rightarrow> None)"

fun unescape :: "string \<Rightarrow> encoding \<Rightarrow> error + string" where
  "unescape [] mode = Inr []"
| "unescape (c # cs) mode =
     (if c = CHR ''%'' then
        (case cs of
           h1 # h2 # rest \<Rightarrow>
             (case unhex_pair h1 h2 of
                None \<Rightarrow> Inl UrlError
              | Some v \<Rightarrow>
                  if mode = encodeHost \<and> (of_char v :: nat) < 128 \<and> [h1, h2] \<noteq> ''25'' then
                    Inl UrlError
                  else if mode = encodeZone \<and> [h1, h2] \<noteq> ''25'' \<and> v \<noteq> CHR '' '' \<and>
                          shouldEscape v encodeHost then
                    Inl UrlError
                  else
                    (case unescape rest mode of
                       Inl e \<Rightarrow> Inl e
                     | Inr r \<Rightarrow> Inr (v # r)))
         | _ \<Rightarrow> Inl UrlError)
      else if mode = encodeQueryComponent \<and> c = CHR ''+'' then
        (case unescape cs mode of Inl e \<Rightarrow> Inl e | Inr r \<Rightarrow> Inr (CHR '' '' # r))
      else if (mode = encodeHost \<or> mode = encodeZone) \<and> (of_char c :: nat) < 128 \<and>
              shouldEscape c encodeHost then
        Inl UrlError
      else
        (case unescape cs mode of Inl e \<Rightarrow> Inl e | Inr r \<Rightarrow> Inr (c # r)))"

definition upperhex :: "bool \<Rightarrow> bool \<Rightarrow> bool \<Rightarrow> bool \<Rightarrow> char" where
  "upperhex b0 b1 b2 b3 =
     (if b3 then
        (if b2 then (if b1 then (if b0 then CHR ''F'' else CHR ''E'')
                     else (if b0 then CHR ''D'' else CHR ''C''))
         else (if b1 then (if b0 then CHR ''B'' else CHR ''A'')
               else (if b0 then CHR ''9'' else CHR ''8'')))
      else
        (if b2 then (if b1 then (if b0 then CHR ''7'' else CHR ''6'')
                     else (if b0 then CHR ''5'' else CHR ''4''))
         else (if b1 then (if b0 then CHR ''3'' else CHR ''2'')
               else (if b0 then CHR ''1'' else CHR ''0''))))"

definition percent :: "char \<Rightarrow> string" where
  "percent c =
     (case c of
        Char b0 b1 b2 b3 b4 b5 b6 b7 \<Rightarrow>
          [CHR ''%'', upperhex b4 b5 b6 b7, upperhex b0 b1 b2 b3])"

definition escape :: "string \<Rightarrow> encoding \<Rightarrow> string" where
  "escape s mode =
     concat (map (\<lambda>c. if shouldEscape c mode then
                         (if c = CHR '' '' \<and> mode = encodeQueryComponent then ''+'' else percent c)
                       else [c]) s)"

definition validEncoded :: "string \<Rightarrow> encoding \<Rightarrow> bool" where
  "validEncoded s mode =
     list_all (\<lambda>c. c \<in> set [CHR ''!'', CHR ''$'', CHR ''&'', CHR 0x27, CHR ''('', CHR '')'',
                              CHR ''*'', CHR ''+'', CHR '','', CHR '';'', CHR ''='', CHR '':'',
                              CHR ''@'', CHR ''['', CHR '']'', CHR ''%'']
                    \<or> \<not> shouldEscape c mode) s"

text \<open>
  \<open>setPath\<close> and \<open>setFragment\<close> keep the text as it was written when it is not the default
  escaping of what it decodes to; \<open>EscapedPath\<close> and \<open>EscapedFragment\<close> give that text back
  when it is a valid encoding of the path or fragment.
\<close>

definition setPath :: "URL \<Rightarrow> string \<Rightarrow> error + URL" where
  "setPath u p =
     (case unescape p encodePath of
        Inl e \<Rightarrow> Inl e
      | Inr path \<Rightarrow>
          Inr (u\<lparr>Path := path, RawPath := (if p = escape path encodePath then [] else p)\<rparr>))"

definition setFragment :: "URL \<Rightarrow> string \<Rightarrow> error + URL" where
  "setFragment u f =
     (case unescape f encodeFragment of
        Inl e \<Rightarrow> Inl e
      | Inr frag \<Rightarrow>
          Inr (u\<lparr>Fragment := frag,
                 RawFragment := (if f = escape frag encodeFragment then [] else f)\<rparr>))"

definition EscapedPath :: "URL \<Rightarrow> string" where
  "EscapedPath u =
     (if RawPath u \<noteq> [] \<and> validEncoded (RawPath u) encodePath \<and>
         unescape (RawPath u) encodePath = Inr (Path u) then RawPath u
      else if Path u = ''*'' then ''*''
      else escape (Path u) encodePath)"

definition EscapedFragment :: "URL \<Rightarrow> string" where
  "EscapedFragment u =
     (if RawFragment u \<noteq> [] \<and> validEncoded (RawFragment u) encodeFragment \<and>
         unescape (RawFragment u) encodeFragment = Inr (Fragment u) then RawFragment u
      else escape (Fragment u) encodeFragment)"

text \<open>
  The authority: \<open>parseHost\<close> accepts a host with an optional port of digits, or an IP
  literal in brackets with an optional zone, and keeps the port in the host;
  \<open>parseAuthority\<close> splits the user information off at the last \<^verbatim>\<open>@\<close>.
\<close>

definition validOptionalPort :: "string \<Rightarrow> bool" where
  "validOptionalPort port =
     (case port of [] \<Rightarrow> True | c # ds \<Rightarrow> c = CHR '':'' \<and> list_all is_digit ds)"

definition validUserinfo :: "string \<Rightarrow> bool" where
  "validUserinfo s =
     list_all (\<lambda>c. is_alpha c \<or> is_digit c \<or>
                    c \<in> set [CHR ''-'', CHR ''.'', CHR ''_'', CHR '':'', CHR ''~'', CHR ''!'',
                              CHR ''$'', CHR ''&'', CHR 0x27, CHR ''('', CHR '')'', CHR ''*'',
                              CHR ''+'', CHR '','', CHR '';'', CHR ''='', CHR ''%'', CHR ''@'']) s"

fun index_from :: "nat \<Rightarrow> string \<Rightarrow> string \<Rightarrow> nat option" where
  "index_from i sub [] = (if sub = [] then Some i else None)"
| "index_from i sub (c # cs) =
     (if take (length sub) (c # cs) = sub then Some i else index_from (Suc i) sub cs)"

definition parseHost :: "string \<Rightarrow> error + string" where
  "parseHost host =
     (if HasPrefix host ''['' then
        (if CHR '']'' \<notin> set host then Inl UrlError
         else
           let inside = fst (cut_last host (CHR '']''));
               colonPort = snd (cut_last host (CHR '']''))
           in
           if \<not> validOptionalPort colonPort then Inl UrlError
           else
             (case index_from 0 ''%25'' inside of
                Some zone \<Rightarrow>
                  (case unescape (take zone host) encodeHost of
                     Inl e \<Rightarrow> Inl e
                   | Inr host1 \<Rightarrow>
                       (case unescape (drop zone inside) encodeZone of
                          Inl e \<Rightarrow> Inl e
                        | Inr host2 \<Rightarrow>
                            (case unescape (drop (length inside) host) encodeHost of
                               Inl e \<Rightarrow> Inl e
                             | Inr host3 \<Rightarrow> Inr (host1 @ host2 @ host3))))
              | None \<Rightarrow> unescape host encodeHost))
      else if CHR '':'' \<in> set host \<and>
              \<not> validOptionalPort (CHR '':'' # snd (cut_last host (CHR '':''))) then
        Inl UrlError
      else unescape host encodeHost)"

definition parseUserinfo :: "string \<Rightarrow> error + Userinfo" where
  "parseUserinfo userinfo =
     (if \<not> validUserinfo userinfo then Inl UrlError
      else if CHR '':'' \<notin> set userinfo then
        (case unescape userinfo encodeUserPassword of
           Inl e \<Rightarrow> Inl e
         | Inr name \<Rightarrow> Inr \<lparr>username = name, password = [], passwordSet = False\<rparr>)
      else
        (case unescape (fst (Cut userinfo (CHR '':''))) encodeUserPassword of
           Inl e \<Rightarrow> Inl e
         | Inr name \<Rightarrow>
             (case unescape (snd (Cut userinfo (CHR '':''))) encodeUserPassword of
                Inl e \<Rightarrow> Inl e
              | Inr pass \<Rightarrow> Inr \<lparr>username = name, password = pass, passwordSet = True\<rparr>)))"

definition parseAuthority :: "string \<Rightarrow> error + Userinfo option \<times> string" where
  "parseAuthority authority =
     (if CHR ''@'' \<notin> set authority then
        (case parseHost authority of Inl e \<Rightarrow> Inl e | Inr host \<Rightarrow> Inr (None, host))
      else
        (case parseHost (snd (cut_last authority (CHR ''@''))) of
           Inl e \<Rightarrow> Inl e
         | Inr host \<Rightarrow>
             (case parseUserinfo (fst (cut_last authority (CHR ''@''))) of
                Inl e \<Rightarrow> Inl e
              | Inr user \<Rightarrow> Inr (Some user, host))))"

text \<open>
  \<open>parse\<close> with \<^verbatim>\<open>viaRequest\<close> false. A string with a scheme and no slash after the colon
  is opaque: so is \<^verbatim>\<open>git.example.com:3000\<close>, whose scheme is \<^verbatim>\<open>git.example.com\<close>. A string
  with no scheme and no leading slash is a relative path, which must not have a colon in
  its first segment.
\<close>

definition parse :: "string \<Rightarrow> error + URL" where
  "parse rawURL =
     (if stringContainsCTLByte rawURL then Inl UrlError
      else if rawURL = ''*'' then Inr (empty_URL\<lparr>Path := ''*''\<rparr>)
      else
        (case getScheme rawURL of
           Inl e \<Rightarrow> Inl e
         | Inr (scheme, rest0) \<Rightarrow>
             let force = (HasSuffix rest0 ''?'' \<and> length (filter (\<lambda>c. c = CHR ''?'') rest0) = 1);
                 rest = (if force then butlast rest0 else fst (Cut rest0 (CHR ''?'')));
                 url = empty_URL\<lparr>Scheme := map to_lower scheme, ForceQuery := force,
                         RawQuery := (if force then [] else snd (Cut rest0 (CHR ''?'')))\<rparr>
             in
             if \<not> HasPrefix rest ''/'' \<and> scheme \<noteq> [] then Inr (url\<lparr>Opaque := rest\<rparr>)
             else if \<not> HasPrefix rest ''/'' \<and> CHR '':'' \<in> set (fst (Cut rest (CHR ''/''))) then
               Inl UrlError
             else if (scheme \<noteq> [] \<or> \<not> HasPrefix rest ''///'') \<and> HasPrefix rest ''//'' then
               (case parseAuthority (takeWhile (\<lambda>c. c \<noteq> CHR ''/'') (drop 2 rest)) of
                  Inl e \<Rightarrow> Inl e
                | Inr (user, host) \<Rightarrow>
                    setPath (url\<lparr>User := user, Host := host\<rparr>)
                      (dropWhile (\<lambda>c. c \<noteq> CHR ''/'') (drop 2 rest)))
             else
               setPath (url\<lparr>OmitHost := (scheme \<noteq> [] \<and> HasPrefix rest ''/'')\<rparr>) rest))"

text \<open>\<^verbatim>\<open>url.Parse\<close>: the fragment is cut off first.\<close>

definition url_Parse_go :: "string \<Rightarrow> error + URL" where
  "url_Parse_go rawURL =
     (case parse (fst (Cut rawURL (CHR ''#''))) of
        Inl e \<Rightarrow> Inl e
      | Inr url \<Rightarrow>
          if snd (Cut rawURL (CHR ''#'')) = [] then Inr url
          else setFragment url (snd (Cut rawURL (CHR ''#''))))"

text \<open>
  \<^verbatim>\<open>path.Clean\<close> on the segments of the path: empty segments and \<^verbatim>\<open>.\<close> go, \<^verbatim>\<open>..\<close> takes
  the segment before it away, is dropped at the root and kept at the start of a path that
  is not rooted. \<^verbatim>\<open>path.Join\<close> joins the elements that come after the first non-empty one
  with slashes and cleans the result.
\<close>

fun clean_segments :: "bool \<Rightarrow> string list \<Rightarrow> string list \<Rightarrow> string list" where
  "clean_segments rooted stack [] = rev stack"
| "clean_segments rooted stack (g # gs) =
     (if g = [] \<or> g = ''.'' then clean_segments rooted stack gs
      else if g = ''..'' then
        (case stack of
           [] \<Rightarrow> clean_segments rooted (if rooted then [] else [''..'']) gs
         | seg # below \<Rightarrow>
             if seg = ''..'' then clean_segments rooted (''..'' # stack) gs
             else clean_segments rooted below gs)
      else clean_segments rooted (g # stack) gs)"

definition Clean :: "string \<Rightarrow> string" where
  "Clean p =
     (let rooted = HasPrefix p ''/'';
          out = (if rooted then ''/'' else [])
                @ Join (clean_segments rooted [] (Split p (CHR ''/''))) ''/''
      in if out = [] then ''.'' else out)"

fun join_buf :: "string \<Rightarrow> string list \<Rightarrow> string" where
  "join_buf buf [] = buf"
| "join_buf buf (e # es) =
     (if buf \<noteq> [] then join_buf (buf @ ''/'' @ e) es
      else if e \<noteq> [] then join_buf e es
      else join_buf buf es)"

definition path_Join :: "string list \<Rightarrow> string" where
  "path_Join elem = (if concat elem = [] then [] else Clean (join_buf [] elem))"

text \<open>
  \<^verbatim>\<open>(*URL).JoinPath\<close>: the escaped path of the URL and the elements are joined, a relative
  path stays relative, a trailing slash of the last element is kept. The error of
  \<open>setPath\<close> is not looked at: the URL then keeps its path.
\<close>

definition URL_JoinPath :: "URL \<Rightarrow> string list \<Rightarrow> URL" where
  "URL_JoinPath u elem =
     (let elem0 = EscapedPath u;
          rooted = HasPrefix elem0 ''/'';
          elems = (if rooted then elem0 else CHR ''/'' # elem0) # elem;
          p0 = (if rooted then path_Join elems else drop 1 (path_Join elems));
          p = (if HasSuffix (last elems) ''/'' \<and> \<not> HasSuffix p0 ''/'' then p0 @ ''/'' else p0)
      in case setPath u p of Inl e \<Rightarrow> u | Inr u' \<Rightarrow> u')"

text \<open>\<^verbatim>\<open>(*URL).String\<close>.\<close>

definition Userinfo_String :: "Userinfo \<Rightarrow> string" where
  "Userinfo_String ui =
     escape (username ui) encodeUserPassword
     @ (if passwordSet ui then '':'' @ escape (password ui) encodeUserPassword else [])"

definition URL_String :: "URL \<Rightarrow> string" where
  "URL_String u =
     (let scheme = (if Scheme u \<noteq> [] then Scheme u @ '':'' else []);
          authority =
            (if (Scheme u \<noteq> [] \<or> Host u \<noteq> [] \<or> User u \<noteq> None) \<and>
                \<not> (OmitHost u \<and> Host u = [] \<and> User u = None) then
               (if Host u \<noteq> [] \<or> Path u \<noteq> [] \<or> User u \<noteq> None then ''//'' else [])
               @ (case User u of None \<Rightarrow> [] | Some ui \<Rightarrow> Userinfo_String ui @ ''@'')
               @ (if Host u \<noteq> [] then escape (Host u) encodeHost else [])
             else []);
          path = EscapedPath u;
          slash = (if path \<noteq> [] \<and> \<not> HasPrefix path ''/'' \<and> Host u \<noteq> [] then ''/'' else []);
          dot = (if scheme @ authority @ slash = [] \<and>
                    CHR '':'' \<in> set (fst (Cut path (CHR ''/''))) then ''./'' else [])
      in (if Opaque u \<noteq> [] then scheme @ Opaque u
          else scheme @ authority @ slash @ dot @ path)
         @ (if ForceQuery u \<or> RawQuery u \<noteq> [] then ''?'' @ RawQuery u else [])
         @ (if Fragment u \<noteq> [] then ''#'' @ EscapedFragment u else []))"

text \<open>\<^verbatim>\<open>url.JoinPath\<close>: the base is parsed as a URL, and the result is that URL as a string.\<close>

definition url_JoinPath_go :: "string \<Rightarrow> string \<Rightarrow> error + string" where
  "url_JoinPath_go base elem =
     (case url_Parse_go base of
        Inl e \<Rightarrow> Inl e
      | Inr u \<Rightarrow> Inr (URL_String (URL_JoinPath u [elem])))"

subsection \<open>The instance\<close>

text \<open>
  The SDK gives a new event a random identifier and the time of the call; the instance
  gives every event the same ones. Its \<open>SetCustomData\<close> accepts any value with the content
  type \<^verbatim>\<open>application/json\<close>, the only one the translators pass.
\<close>

definition go_libs :: libs where
  "go_libs =
     \<lparr>Unmarshal_map = Unmarshal_map_go,
      Unmarshal_Push = (\<lambda>data.
        map_sum id fst
          (Unmarshal_struct decode_push
             (\<lparr>TotalCommits = 0, Commits = [], Push_Repository = zero_repository\<rparr>, []) data)),
      Unmarshal_PullRequest = Unmarshal_struct decode_pull_request
        \<lparr>Action = [], PullRequest = \<lparr>PullRequest_Id = 0\<rparr>,
         PullRequest_Repository = zero_repository\<rparr>,
      Unmarshal_Create = Unmarshal_struct decode_create
        \<lparr>Create_RefType = [], Create_Ref = [], Create_Repository = zero_repository\<rparr>,
      Unmarshal_Delete = Unmarshal_struct decode_delete
        \<lparr>Delete_RefType = [], Delete_Ref = [], Delete_Repository = zero_repository\<rparr>,
      url_Parse = url_Parse_go,
      url_JoinPath = url_JoinPath_go,
      initCDEvent = (\<lambda>ty. Inr (''6ba7b810-9dad-11d1-80b4-00c04fd430c8'', ''2024-11-17T18:19:39Z'')),
      CheckCustomData = (\<lambda>contentType v.
        if contentType = ''application/json'' then None
        else Some (LibraryError ''custom data of this content type must be bytes''))\<rparr>"

section \<open>Notions used to state the properties\<close>

text \<open>
  The routing key of a subject, as \<open>Process\<close> computes it when the subject has at least two
  segments: the segments after the first, joined with dots again.
\<close>

definition routing_key :: "string \<Rightarrow> string" where
  "routing_key subject = Join (drop 1 (Split subject (CHR ''.''))) ''.''"










section \<open>Concrete messages\<close>

text \<open>The URL of the repository of the tests, as \<^verbatim>\<open>url.Parse\<close> returns it.\<close>

definition project_url :: URL where
  "project_url =
     empty_URL\<lparr>Scheme := ''http'', Host := ''git.example.com'', Path := ''/yoloco/project1''\<rparr>"

text \<open>
  The adapter that \<open>main\<close> builds, with a publisher whose every call succeeds, and the
  metadata of a first delivery.
\<close>

definition main_adapter :: "translator CDEventAdapter" where
  "main_adapter = \<lparr>publisher = (\<lambda>e. None), translators = main_translators\<rparr>"

definition first_delivery :: MsgMetadata where
  "first_delivery =
     \<lparr>Sequence_Stream = 1, Sequence_Consumer = 1, NumDelivered = 1,
      Stream = ''cdevents-adapter-webhooks'', Consumer = ''cdevents-adapter''\<rparr>"

definition message :: "string \<Rightarrow> bytes \<Rightarrow> JetstreamMsg" where
  "message subject body =
     \<lparr>Data = body, Subject = subject, Ack = None, Metadata = Inr first_delivery\<rparr>"

text \<open>
  Payloads with the members that the translators read, taken from the payloads of the
  repository's tests: a push of one commit, a push that announces a commit and lists none,
  a pull request that was opened or reopened, a push that names its head commit and lists
  no commit, and the creation of a branch, named or with an empty name.
\<close>

definition push_payload :: bytes where
  "push_payload =
     ''{\"commits\": [{\"id\": \"9d7b2d18bf7f315c666a4b3607f47bd452e7c8d2\"}], \"total_commits\": 1, \"repository\": {\"full_name\": \"yoloco/project1\", \"html_url\": \"http://git.example.com/yoloco/project1\"}}''"

definition push_struct :: GiteaPushEvent where
  "push_struct =
     \<lparr>TotalCommits = 1,
      Commits = [\<lparr>Commit_Id = ''9d7b2d18bf7f315c666a4b3607f47bd452e7c8d2''\<rparr>],
      Push_Repository =
        \<lparr>FullName = ''yoloco/project1'', HtmlUrl = ''http://git.example.com/yoloco/project1''\<rparr>\<rparr>"

definition push_event :: CDEvent where
  "push_event =
     \<lparr>Context_Type = ChangeMergedEventTypeV0_2_0,
      Context_Id = ''6ba7b810-9dad-11d1-80b4-00c04fd430c8'',
      Context_Timestamp = ''2024-11-17T18:19:39Z'',
      Context_Source = ''git.example.com'',
      Subject_Id = ''9d7b2d18bf7f315c666a4b3607f47bd452e7c8d2'',
      Subject_Source = ''git.example.com/yoloco/project1'',
      SubjectRepository = Some \<lparr>Reference_Id = ''yoloco/project1'', Reference_Source = []\<rparr>,
      CustomData = Some (KindContent ''structs.GiteaPushEvent'' (PushEvent push_struct)),
      CustomDataContentType = ''application/json''\<rparr>"

definition push_no_commits_payload :: bytes where
  "push_no_commits_payload =
     ''{\"commits\": [], \"total_commits\": 1, \"repository\": {\"full_name\": \"yoloco/project1\", \"html_url\": \"http://git.example.com/yoloco/project1\"}}''"

definition push_no_commits_struct :: GiteaPushEvent where
  "push_no_commits_struct =
     \<lparr>TotalCommits = 1, Commits = [],
      Push_Repository =
        \<lparr>FullName = ''yoloco/project1'', HtmlUrl = ''http://git.example.com/yoloco/project1''\<rparr>\<rparr>"

definition pull_request_payload :: bytes where
  "pull_request_payload =
     ''{\"action\": \"opened\", \"pull_request\": {\"id\": 3}, \"repository\": {\"full_name\": \"yoloco/project1\", \"html_url\": \"http://git.example.com/yoloco/project1\"}}''"

definition pull_request_struct :: GiteaPullRequestEvent where
  "pull_request_struct =
     \<lparr>Action = ''opened'', PullRequest = \<lparr>PullRequest_Id = 3\<rparr>,
      PullRequest_Repository =
        \<lparr>FullName = ''yoloco/project1'', HtmlUrl = ''http://git.example.com/yoloco/project1''\<rparr>\<rparr>"

definition reopened_payload :: bytes where
  "reopened_payload =
     ''{\"action\": \"reopened\", \"pull_request\": {\"id\": 3}, \"repository\": {\"full_name\": \"yoloco/project1\", \"html_url\": \"http://git.example.com/yoloco/project1\"}}''"

definition unlisted_commit_payload :: bytes where
  "unlisted_commit_payload =
     ''{\"after\": \"9d7b2d18bf7f315c666a4b3607f47bd452e7c8d2\", \"commits\": [], \"total_commits\": 1, \"head_commit\": {\"id\": \"9d7b2d18bf7f315c666a4b3607f47bd452e7c8d2\"}, \"repository\": {\"full_name\": \"yoloco/project1\", \"html_url\": \"http://git.example.com/yoloco/project1\"}}''"


text \<open>The same creation on a Gitea that is served on the port 3000.\<close>

definition create_port_payload :: bytes where
  "create_port_payload =
     ''{\"ref\": \"foo\", \"ref_type\": \"branch\", \"repository\": {\"full_name\": \"yoloco/project1\", \"html_url\": \"https://git.example.com:3000/yoloco/project1\"}}''"



text \<open>
  The event of the creation on the port 3000: the host of the URL holds the port, and the
  subject source is that host without the path of the repository.
\<close>

definition create_port_event :: CDEvent where
  "create_port_event =
     \<lparr>Context_Type = BranchCreatedEventTypeV0_2_0,
      Context_Id = ''6ba7b810-9dad-11d1-80b4-00c04fd430c8'',
      Context_Timestamp = ''2024-11-17T18:19:39Z'',
      Context_Source = ''git.example.com:3000'',
      Subject_Id = ''foo'',
      Subject_Source = ''git.example.com:3000'',
      SubjectRepository = Some \<lparr>Reference_Id = ''yoloco/project1'', Reference_Source = []\<rparr>,
      CustomData = Some (KindContent ''structs.GiteaCreateEvent'' (CreateEvent
        \<lparr>Create_RefType = ''branch'', Create_Ref = ''foo'',
         Create_Repository =
           \<lparr>FullName = ''yoloco/project1'',
            HtmlUrl = ''https://git.example.com:3000/yoloco/project1''\<rparr>\<rparr>)),
      CustomDataContentType = ''application/json''\<rparr>"


text \<open>
  Messages that the ingress can queue: a webhook delivered as a form
  (\<^verbatim>\<open>application/x-www-form-urlencoded\<close>) instead of JSON on the subject of pushes, a JSON
  array on a subject of one segment, an empty body on a subject that has no translator, and
  a message whose metadata cannot be read.
\<close>

definition form_message :: JetstreamMsg where
  "form_message = message ''webhooks.gitea.push'' ''payload=%7B%7D''"

definition array_message :: JetstreamMsg where
  "array_message = message ''webhooks'' ''[]''"

definition empty_message :: JetstreamMsg where
  "empty_message = message ''webhooks.gitea.release'' []"

definition no_reply_error :: error where
  "no_reply_error = LibraryError ''nats: message does not have a reply''"

definition no_metadata_message :: JetstreamMsg where
  "no_metadata_message =
     \<lparr>Data = push_payload, Subject = ''webhooks.gitea.push'', Ack = None,
      Metadata = Inl no_reply_error\<rparr>"

section \<open>Properties of the adapter\<close>

subsection \<open>Traces and subjects\<close>

lemma translate_calls_append:
  "translate_calls (xs @ ys) = translate_calls xs @ translate_calls ys"
  by (induction xs rule: translate_calls.induct) simp_all

lemma publish_calls_append:
  "publish_calls (xs @ ys) = publish_calls xs @ publish_calls ys"
  by (induction xs rule: publish_calls.induct) simp_all

lemma ack_calls_append: "ack_calls (xs @ ys) = ack_calls xs + ack_calls ys"
  by (induction xs rule: ack_calls.induct) simp_all

lemma Process_body_no_ack: "ack_calls (snd (Process_body unmarshal translate c msg)) = 0"
  by (simp add: Process_body_def Let_def split: sum.split option.split result.split)

lemma length_Split_from:
  "length (Split_from cur s sep) = Suc (length (filter (\<lambda>c. c = sep) s))"
  by (induction s arbitrary: cur) simp_all

text \<open>A subject has fewer than two segments exactly when it has no dot.\<close>

lemma few_parts_iff: "length (Split s sep) < 2 \<longleftrightarrow> sep \<notin> set s"
  by (auto simp add: Split_def length_Split_from filter_empty_conv less_Suc_eq_le)

subsection \<open>The instance on the concrete messages\<close>

lemma push_payload_is_object: "Unmarshal_map go_libs push_payload = None"
  by code_simp

lemma push_payload_decodes: "Unmarshal_Push go_libs push_payload = Inr push_struct"
  by code_simp

lemma push_payload_translates:
  "Translate go_libs GiteaPushTranslator push_payload = Ok push_event"
  by code_simp

lemma push_event_type: "Context_Type push_event = ChangeMergedEventTypeV0_2_0"
  by (simp add: push_event_def)

lemma push_routing_key: "routing_key ''webhooks.gitea.push'' = ''gitea.push''"
  by (simp add: routing_key_def Split_def)

lemma release_routing_key: "routing_key ''webhooks.gitea.release'' = ''gitea.release''"
  by (simp add: routing_key_def Split_def)

lemma main_translators_push: "main_translators ''gitea.push'' = Some GiteaPushTranslator"
  by (simp add: main_translators_def)

lemma main_translators_release: "main_translators ''gitea.release'' = None"
  by (simp add: main_translators_def)

lemma Process_push_message:
  "Process (Unmarshal_map go_libs) (Translate go_libs) main_adapter
     (message ''webhooks.gitea.push'' push_payload) =
   (Ok (),
    [LogDebug ''Processing incoming webhook message''
       [(''subject'', StringAttr ''webhooks.gitea.push''),
        (''stream_seq'', Uint64Attr 1), (''num_delivered'', Uint64Attr 1),
        (''stream'', StringAttr ''cdevents-adapter-webhooks''),
        (''consumer'', StringAttr ''cdevents-adapter'')],
     TranslateCall GiteaPushTranslator push_payload,
     LogDebug ''Translated incoming webhook message into CDEvent''
       [(''type'', TypeAttr ChangeMergedEventTypeV0_2_0),
        (''subject'', StringAttr ''webhooks.gitea.push''),
        (''stream_seq'', Uint64Attr 1), (''num_delivered'', Uint64Attr 1),
        (''stream'', StringAttr ''cdevents-adapter-webhooks''),
        (''consumer'', StringAttr ''cdevents-adapter'')],
     PublishCall push_event, AckCall])"
  using push_payload_is_object push_payload_translates main_translators_push
  by (simp add: Process_def Process_body_def message_def first_delivery_def main_adapter_def
      Split_def Let_def push_event_type)

subsection \<open>Routing to the translator\<close>

text \<open>
  C1, as the specification states it, fails on a message that is routed to a registered
  translator and whose body is not JSON: \<open>Process\<close> decodes the body before it looks at the
  subject and returns the decoder's error. The message below is on the subject of pushes,
  its body is a form; no translator is called.
\<close>

theorem form_message_not_translated:
  "2 \<le> length (Split (Subject form_message) (CHR ''.'')) \<and>
   translators main_adapter (routing_key (Subject form_message)) = Some GiteaPushTranslator \<and>
   fst (Process (Unmarshal_map go_libs) (Translate go_libs) main_adapter form_message)
     = Err SyntaxError \<and>
   translate_calls (snd (Process (Unmarshal_map go_libs) (Translate go_libs) main_adapter
     form_message)) = []"
  by code_simp

text \<open>
  C1, amended. For every message whose metadata can be read, whose body decodes without
  error, whose subject has at least two segments and whose routing key is in the
  registry, \<open>Process\<close> calls the translator registered for that key, once, with the bytes
  of the message as they are, and calls no other translator.
\<close>

theorem Process_invokes_registered_translator:
  assumes "Metadata msg = Inr md"
    and "unmarshal (Data msg) = None"
    and "2 \<le> length (Split (Subject msg) (CHR ''.''))"
    and "translators c (routing_key (Subject msg)) = Some t"
  shows "translate_calls (snd (Process unmarshal translate c msg)) = [(t, Data msg)]"
  using assms
  by (simp add: Process_def Process_body_def routing_key_def Let_def translate_calls_append
      split: result.split option.split prod.split)

text \<open>The push of the tests, queued on the subject of pushes, reaches the push translator.\<close>

theorem Process_invokes_registered_translator_witness:
  "Metadata (message ''webhooks.gitea.push'' push_payload) = Inr first_delivery \<and>
   Unmarshal_map go_libs (Data (message ''webhooks.gitea.push'' push_payload)) = None \<and>
   2 \<le> length (Split (Subject (message ''webhooks.gitea.push'' push_payload)) (CHR ''.'')) \<and>
   translators main_adapter (routing_key (Subject (message ''webhooks.gitea.push'' push_payload)))
     = Some GiteaPushTranslator \<and>
   translate_calls (snd (Process (Unmarshal_map go_libs) (Translate go_libs) main_adapter
     (message ''webhooks.gitea.push'' push_payload)))
     = [(GiteaPushTranslator, Data (message ''webhooks.gitea.push'' push_payload))]"
proof -
  let ?m = "message ''webhooks.gitea.push'' push_payload"
  have h1: "Metadata ?m = Inr first_delivery"
    by (simp add: message_def)
  have h2: "Unmarshal_map go_libs (Data ?m) = None"
    by (simp add: message_def push_payload_is_object)
  have h3: "2 \<le> length (Split (Subject ?m) (CHR ''.''))"
    by (simp add: message_def Split_def)
  have h4: "translators main_adapter (routing_key (Subject ?m)) = Some GiteaPushTranslator"
    by (simp add: message_def main_adapter_def push_routing_key main_translators_push)
  have c: "translate_calls (snd (Process (Unmarshal_map go_libs) (Translate go_libs)
             main_adapter ?m)) = [(GiteaPushTranslator, Data ?m)]"
    by (rule Process_invokes_registered_translator
          [where unmarshal = "Unmarshal_map go_libs" and msg = ?m, OF h1 h2 h3 h4])
  from h1 h2 h3 h4 c show ?thesis by (intro conjI)
qed

subsection \<open>Publishing\<close>

text \<open>
  C2. Whenever \<open>Process\<close> has called a translator on the message and that call returned an
  event, the publisher is called once, with that event, and with no other.
\<close>

theorem Process_publishes_translated_event:
  assumes "(t, d) \<in> set (translate_calls (snd (Process unmarshal translate c msg)))"
    and "translate t d = Ok ev"
  shows "publish_calls (snd (Process unmarshal translate c msg)) = [ev]"
  using assms
  by (auto simp add: Process_def Process_body_def Let_def translate_calls_append
      publish_calls_append
      split: result.splits option.splits prod.splits sum.splits if_splits)

theorem Process_publishes_translated_event_witness:
  "(GiteaPushTranslator, push_payload) \<in> set (translate_calls (snd
      (Process (Unmarshal_map go_libs) (Translate go_libs) main_adapter
         (message ''webhooks.gitea.push'' push_payload)))) \<and>
   Translate go_libs GiteaPushTranslator push_payload = Ok push_event \<and>
   publish_calls (snd (Process (Unmarshal_map go_libs) (Translate go_libs) main_adapter
      (message ''webhooks.gitea.push'' push_payload))) = [push_event]"
proof -
  let ?m = "message ''webhooks.gitea.push'' push_payload"
  have h1: "(GiteaPushTranslator, push_payload) \<in> set (translate_calls (snd
      (Process (Unmarshal_map go_libs) (Translate go_libs) main_adapter ?m)))"
    by (simp add: Process_push_message)
  have h2: "Translate go_libs GiteaPushTranslator push_payload = Ok push_event"
    by (rule push_payload_translates)
  have c: "publish_calls (snd (Process (Unmarshal_map go_libs) (Translate go_libs)
      main_adapter ?m)) = [push_event]"
    by (rule Process_publishes_translated_event [OF h1 h2])
  from h1 h2 c show ?thesis by (intro conjI)
qed

subsection \<open>Acknowledgment\<close>

text \<open>
  C3. Whatever the body of \<open>Process\<close> does (it returns nil, returns the error of any step, or
  a translator panics), the message is acknowledged: the acknowledgment is the last effect
  of the call, and the only acknowledgment.
\<close>

theorem Process_always_acks:
  "last (snd (Process unmarshal translate c msg)) = AckCall \<and>
   ack_calls (snd (Process unmarshal translate c msg)) = 1"
proof -
  obtain r tr where b: "Process_body unmarshal translate c msg = (r, tr)"
    by (cases "Process_body unmarshal translate c msg")
  have "ack_calls tr = 0"
    using Process_body_no_ack [of unmarshal translate c msg] b by simp
  with b show ?thesis
    by (simp add: Process_def ack_calls_append)
qed

text \<open>
  C4, as the specification states it, fails: the acknowledgment is deferred before the
  metadata is read, so a message whose metadata cannot be read is acknowledged too.
\<close>

theorem no_metadata_message_is_acked:
  "Metadata no_metadata_message = Inl no_reply_error \<and>
   fst (Process (Unmarshal_map go_libs) (Translate go_libs) main_adapter no_metadata_message)
     = Err no_reply_error \<and>
   ack_calls (snd (Process (Unmarshal_map go_libs) (Translate go_libs) main_adapter
     no_metadata_message)) = 1"
  by (simp add: Process_def Process_body_def no_metadata_message_def)

text \<open>
  C4, amended. If the metadata of the message cannot be read, \<open>Process\<close> returns that error,
  calls neither a translator nor the publisher, and acknowledges the message: the
  acknowledgment is the only effect of the call.
\<close>

theorem Process_metadata_failure:
  assumes "Metadata msg = Inl err"
  shows "Process unmarshal translate c msg = (Err err, [AckCall])"
  using assms by (simp add: Process_def Process_body_def)

theorem Process_metadata_failure_witness:
  "Metadata no_metadata_message = Inl no_reply_error \<and>
   Process (Unmarshal_map go_libs) (Translate go_libs) main_adapter no_metadata_message
     = (Err no_reply_error, [AckCall])"
proof -
  have h: "Metadata no_metadata_message = Inl no_reply_error"
    by (simp add: no_metadata_message_def)
  from h Process_metadata_failure [OF h] show ?thesis by (intro conjI)
qed

subsection \<open>Routing failures\<close>

text \<open>
  C5, as the specification states it, fails on a message whose subject has one segment and
  whose body is not a JSON object: the error returned is the decoder's.
\<close>

theorem array_message_other_error:
  "length (Split (Subject array_message) (CHR ''.'')) < 2 \<and>
   fst (Process (Unmarshal_map go_libs) (Translate go_libs) main_adapter array_message)
     = Err UnmarshalTypeError \<and>
   fst (Process (Unmarshal_map go_libs) (Translate go_libs) main_adapter array_message)
     \<noteq> Err (Errorf (''unable to determine type of message as subject has to few parts: ''
                     @ Subject array_message))"
  by code_simp

text \<open>
  C5, amended. For every message whose subject has fewer than two segments, \<open>Process\<close>
  calls neither a translator nor the publisher; and when the metadata of the message can
  be read and its body decodes without error, \<open>Process\<close> returns the error
  \<^verbatim>\<open>unable to determine type of message as subject has to few parts: <subject>\<close>.
\<close>

theorem Process_too_few_parts:
  assumes "length (Split (Subject msg) (CHR ''.'')) < 2"
  shows "translate_calls (snd (Process unmarshal translate c msg)) = [] \<and>
         publish_calls (snd (Process unmarshal translate c msg)) = [] \<and>
         ((\<exists>md. Metadata msg = Inr md) \<and> unmarshal (Data msg) = None \<longrightarrow>
            fst (Process unmarshal translate c msg) =
              Err (Errorf (''unable to determine type of message as subject has to few parts: ''
                             @ Subject msg)))"
  using assms
  by (auto simp add: Process_def Process_body_def Let_def split: sum.split option.split)

theorem Process_too_few_parts_witness:
  "length (Split (Subject (message ''webhooks'' push_payload)) (CHR ''.'')) < 2 \<and>
   Metadata (message ''webhooks'' push_payload) = Inr first_delivery \<and>
   Unmarshal_map go_libs (Data (message ''webhooks'' push_payload)) = None \<and>
   translate_calls (snd (Process (Unmarshal_map go_libs) (Translate go_libs) main_adapter
          (message ''webhooks'' push_payload))) = [] \<and>
   publish_calls (snd (Process (Unmarshal_map go_libs) (Translate go_libs) main_adapter
          (message ''webhooks'' push_payload))) = [] \<and>
   fst (Process (Unmarshal_map go_libs) (Translate go_libs) main_adapter
          (message ''webhooks'' push_payload)) =
     Err (Errorf ''unable to determine type of message as subject has to few parts: webhooks'')"
proof -
  let ?m = "message ''webhooks'' push_payload"
  have h1: "length (Split (Subject ?m) (CHR ''.'')) < 2"
    by (simp add: message_def Split_def)
  have h2: "Metadata ?m = Inr first_delivery"
    by (simp add: message_def)
  have h3: "Unmarshal_map go_libs (Data ?m) = None"
    by (simp add: message_def push_payload_is_object)
  have s: "Subject ?m = ''webhooks''"
    by (simp add: message_def)
  from Process_too_few_parts
         [where unmarshal = "Unmarshal_map go_libs" and translate = "Translate go_libs"
            and c = main_adapter and msg = ?m, OF h1] h2 h3
  have c: "translate_calls (snd (Process (Unmarshal_map go_libs) (Translate go_libs)
           main_adapter ?m)) = [] \<and>
         publish_calls (snd (Process (Unmarshal_map go_libs) (Translate go_libs)
           main_adapter ?m)) = [] \<and>
         fst (Process (Unmarshal_map go_libs) (Translate go_libs) main_adapter ?m) =
           Err (Errorf (''unable to determine type of message as subject has to few parts: ''
                          @ Subject ?m))"
    by blast
  from h1 h2 h3 c show ?thesis unfolding s by simp
qed

text \<open>
  C6, as the specification states it, fails on a message whose routing key has no
  translator and whose body is empty: the error returned is the decoder's.
\<close>

theorem empty_message_other_error:
  "2 \<le> length (Split (Subject empty_message) (CHR ''.'')) \<and>
   translators main_adapter (routing_key (Subject empty_message)) = None \<and>
   fst (Process (Unmarshal_map go_libs) (Translate go_libs) main_adapter empty_message)
     = Err SyntaxError \<and>
   fst (Process (Unmarshal_map go_libs) (Translate go_libs) main_adapter empty_message)
     \<noteq> Err (Errorf (''no translator found for subject: ''
                     @ routing_key (Subject empty_message)))"
  by code_simp

text \<open>
  C6, amended. For every message whose routing key is not in the registry, \<open>Process\<close> calls
  neither a translator nor the publisher; and when the metadata of the message can be
  read, its body decodes without error and its subject has at least two segments,
  \<open>Process\<close> returns the error \<^verbatim>\<open>no translator found for subject: <key>\<close> with the routing
  key it computed.
\<close>

theorem Process_no_translator:
  assumes "translators c (routing_key (Subject msg)) = None"
  shows "translate_calls (snd (Process unmarshal translate c msg)) = [] \<and>
         publish_calls (snd (Process unmarshal translate c msg)) = [] \<and>
         ((\<exists>md. Metadata msg = Inr md) \<and> unmarshal (Data msg) = None \<and>
          2 \<le> length (Split (Subject msg) (CHR ''.'')) \<longrightarrow>
            fst (Process unmarshal translate c msg) =
              Err (Errorf (''no translator found for subject: '' @ routing_key (Subject msg))))"
  using assms
  by (auto simp add: Process_def Process_body_def routing_key_def Let_def
      split: sum.split option.split)

theorem Process_no_translator_witness:
  "translators main_adapter
     (routing_key (Subject (message ''webhooks.gitea.release'' push_payload))) = None \<and>
   Metadata (message ''webhooks.gitea.release'' push_payload) = Inr first_delivery \<and>
   Unmarshal_map go_libs (Data (message ''webhooks.gitea.release'' push_payload)) = None \<and>
   2 \<le> length (Split (Subject (message ''webhooks.gitea.release'' push_payload)) (CHR ''.'')) \<and>
   translate_calls (snd (Process (Unmarshal_map go_libs) (Translate go_libs) main_adapter
          (message ''webhooks.gitea.release'' push_payload))) = [] \<and>
   publish_calls (snd (Process (Unmarshal_map go_libs) (Translate go_libs) main_adapter
          (message ''webhooks.gitea.release'' push_payload))) = [] \<and>
   fst (Process (Unmarshal_map go_libs) (Translate go_libs) main_adapter
          (message ''webhooks.gitea.release'' push_payload)) =
     Err (Errorf ''no translator found for subject: gitea.release'')"
proof -
  let ?m = "message ''webhooks.gitea.release'' push_payload"
  have k: "routing_key (Subject ?m) = ''gitea.release''"
    by (simp add: message_def release_routing_key)
  have h1: "translators main_adapter (routing_key (Subject ?m)) = None"
    by (simp add: k main_adapter_def main_translators_release)
  have h2: "Metadata ?m = Inr first_delivery"
    by (simp add: message_def)
  have h3: "Unmarshal_map go_libs (Data ?m) = None"
    by (simp add: message_def push_payload_is_object)
  have h4: "2 \<le> length (Split (Subject ?m) (CHR ''.''))"
    by (simp add: message_def Split_def)
  from Process_no_translator
         [where unmarshal = "Unmarshal_map go_libs" and translate = "Translate go_libs"
            and c = main_adapter and msg = ?m, OF h1] h2 h3 h4
  have c: "translate_calls (snd (Process (Unmarshal_map go_libs) (Translate go_libs)
           main_adapter ?m)) = [] \<and>
         publish_calls (snd (Process (Unmarshal_map go_libs) (Translate go_libs)
           main_adapter ?m)) = [] \<and>
         fst (Process (Unmarshal_map go_libs) (Translate go_libs) main_adapter ?m) =
           Err (Errorf (''no translator found for subject: '' @ routing_key (Subject ?m)))"
    by blast
  from h1 h2 h3 h4 c show ?thesis unfolding k by simp
qed

section \<open>Properties of the translators\<close>

lemmas setter_defs =
  SetSource_def SetSubjectId_def SetSubjectSource_def SetSubjectRepository_def
  SetCustomData_def addGiteaEventAsCustomData_def

lemmas constructor_defs =
  NewChangeMergedEvent_def NewChangeCreatedEvent_def NewBranchCreatedEvent_def
  NewBranchDeletedEvent_def NewEvent_def

text \<open>
  What the shared helper does to an event when the URL parses and its host and path join:
  it sets the source to the host and the subject source to the joined string.
\<close>

lemma addSources_joined:
  assumes "url_Parse env rawUrl = Inr u" and "url_JoinPath env (Host u) (Path u) = Inr ss"
    and "g = PushEvent a \<and> rawUrl = HtmlUrl (Push_Repository a) \<or>
         g = PullRequestEvent b \<and> rawUrl = HtmlUrl (PullRequest_Repository b) \<or>
         g = CreateEvent c \<and> rawUrl = HtmlUrl (Create_Repository c) \<or>
         g = DeleteEvent d \<and> rawUrl = HtmlUrl (Delete_Repository d)"
  shows "addSourcesFromRepositoryUrl env g e =
           Ok (e\<lparr>Context_Source := Host u, Subject_Source := ss\<rparr>, None)"
  using assms by (auto simp add: addSourcesFromRepositoryUrl_def setter_defs)

subsection \<open>Repository URLs without a port\<close>

text \<open>
  On a URL \<^verbatim>\<open>scheme://host/segment/.../segment\<close> of plain segments, \<^verbatim>\<open>url.Parse\<close> returns
  the host and the path as they are written, and \<^verbatim>\<open>url.JoinPath\<close> of that host and that
  path is the one followed by the other: the host parses as a relative path, the two
  are joined with a slash between them, and \<^verbatim>\<open>path.Clean\<close> takes the double slash away.
\<close>

lemma is_alpha_not_special:
  "is_alpha c \<Longrightarrow> c \<noteq> CHR '':'' \<and> c \<noteq> CHR ''/'' \<and> c \<noteq> CHR ''#'' \<and> c \<noteq> CHR ''?''"
  by (auto simp add: is_alpha_def)



























subsection \<open>The instance on the concrete payloads\<close>

lemma repository_url_parses:
  "url_Parse go_libs ''http://git.example.com/yoloco/project1'' = Inr project_url"
  by code_simp

lemma project_url_parts:
  "Host project_url = ''git.example.com''" "Path project_url = ''/yoloco/project1''"
  by (simp_all add: project_url_def empty_URL_def)

lemma repository_url_joins:
  "url_JoinPath go_libs ''git.example.com'' ''/yoloco/project1'' =
     Inr ''git.example.com/yoloco/project1''"
  by code_simp

lemma go_libs_initCDEvent:
  "initCDEvent go_libs ty =
     Inr (''6ba7b810-9dad-11d1-80b4-00c04fd430c8'', ''2024-11-17T18:19:39Z'')"
  by (simp add: go_libs_def)

lemma go_libs_CheckCustomData: "CheckCustomData go_libs ''application/json'' v = None"
  by (simp add: go_libs_def)

lemma push_no_commits_payload_decodes:
  "Unmarshal_Push go_libs push_no_commits_payload = Inr push_no_commits_struct"
  by code_simp

lemma pull_request_payload_decodes:
  "Unmarshal_PullRequest go_libs pull_request_payload = Inr pull_request_struct"
  by code_simp

lemma reopened_payload_decodes:
  "Unmarshal_PullRequest go_libs reopened_payload =
     Inr (pull_request_struct\<lparr>Action := ''reopened''\<rparr>)"
  by code_simp



lemma Sprintf_d_3: "Sprintf_d 3 = ''3''"
  by code_simp

subsection \<open>The fields of an emitted event\<close>



text \<open>
  The same payload on a Gitea that is served on a port: the host of the URL is
  \<^verbatim>\<open>git.example.com:3000\<close>, which \<^verbatim>\<open>url.JoinPath\<close> reads as a URL with the scheme
  \<^verbatim>\<open>git.example.com\<close> and returns without the path, so the subject source of the event is
  the host and the port and does not name the repository. With a host that is no scheme
  \<^verbatim>\<open>url.JoinPath\<close> fails; no translator looks at the error, and the subject source is what
  \<open>SetSource\<close> put there, the host and the port again.
\<close>

lemma port_url_parses:
  "url_Parse go_libs ''https://git.example.com:3000/yoloco/project1'' =
     Inr (empty_URL\<lparr>Scheme := ''https'', Host := ''git.example.com:3000'',
                     Path := ''/yoloco/project1''\<rparr>)"
  by code_simp

lemma port_host_joins_without_path:
  "url_JoinPath go_libs ''git.example.com:3000'' ''/yoloco/project1'' =
     Inr ''git.example.com:3000''"
  by code_simp

lemma port_address_does_not_join:
  "url_JoinPath go_libs ''192.168.1.10:3000'' ''/yoloco/project1'' = Inl UrlError"
  by code_simp

lemma create_port_payload_translates:
  "Translate go_libs GiteaCreateTranslator create_port_payload = Ok create_port_event"
  by code_simp



subsection \<open>Pushes\<close>

text \<open>
  On a push payload that reports at least one new commit in its count and in its list of
  commits, and whose repository URL parses and joins, the push translator returns a
  \<^verbatim>\<open>change merged\<close> event whose subject identifier is the identifier of the first commit
  of the list, whose source is the host of the repository URL, whose subject source is
  what \<^verbatim>\<open>url.JoinPath\<close> makes of the host and the path, and whose subject repository is
  the full name of the repository (the SDK building the event and accepting the custom
  data).
\<close>

lemma push_translate_event:
  assumes "Unmarshal_Push env data = Inr g"
    and "TotalCommits g \<noteq> 0"
    and "Commits g = c0 # cs"
    and "url_Parse env (HtmlUrl (Push_Repository g)) = Inr u"
    and "url_JoinPath env (Host u) (Path u) = Inr ss"
    and "initCDEvent env ChangeMergedEventTypeV0_2_0 = Inr x"
    and "CheckCustomData env ''application/json''
           (KindContent ''structs.GiteaPushEvent'' (PushEvent g)) = None"
  shows "\<exists>e. Translate env GiteaPushTranslator data = Ok e \<and>
             Context_Type e = ChangeMergedEventTypeV0_2_0 \<and>
             Subject_Id e = Commit_Id c0 \<and>
             Context_Source e = Host u \<and>
             Subject_Source e = ss \<and>
             SubjectRepository e =
               Some \<lparr>Reference_Id = FullName (Push_Repository g), Reference_Source = []\<rparr>"
proof -
  obtain i ts where x: "x = (i, ts)" by (cases x)
  have src: "addSourcesFromRepositoryUrl env (PushEvent g) e =
           Ok (e\<lparr>Context_Source := Host u, Subject_Source := ss\<rparr>, None)" for e
    using assms(4,5) by (intro addSources_joined) auto
  show ?thesis
    using assms(1,2,3,6,7) x
    by (simp add: GiteaPushTranslator_Translate_def src constructor_defs setter_defs)
qed

text \<open>
  The scenario of the tests, a push of one commit to \<^verbatim>\<open>yoloco/project1\<close> on
  \<^verbatim>\<open>git.example.com\<close>, is an instance.
\<close>

lemma push_translate_event_scenario:
  "\<exists>e. Translate go_libs GiteaPushTranslator push_payload = Ok e \<and>
        Context_Type e = ChangeMergedEventTypeV0_2_0 \<and>
        Subject_Id e = ''9d7b2d18bf7f315c666a4b3607f47bd452e7c8d2'' \<and>
        Context_Source e = ''git.example.com'' \<and>
        Subject_Source e = ''git.example.com/yoloco/project1'' \<and>
        SubjectRepository e =
          Some \<lparr>Reference_Id = ''yoloco/project1'', Reference_Source = []\<rparr>"
proof -
  let ?u = "project_url"
  have h1: "Unmarshal_Push go_libs push_payload = Inr push_struct"
    by (rule push_payload_decodes)
  have h2: "TotalCommits push_struct \<noteq> 0"
    by (simp add: push_struct_def)
  have h3: "Commits push_struct =
      \<lparr>Commit_Id = ''9d7b2d18bf7f315c666a4b3607f47bd452e7c8d2''\<rparr> # []"
    by (simp add: push_struct_def)
  have h4: "url_Parse go_libs (HtmlUrl (Push_Repository push_struct)) = Inr ?u"
    by (simp add: push_struct_def repository_url_parses)
  have h5: "url_JoinPath go_libs (Host ?u) (Path ?u) = Inr ''git.example.com/yoloco/project1''"
    by (simp add: repository_url_joins project_url_parts)
  have h6: "initCDEvent go_libs ChangeMergedEventTypeV0_2_0 =
      Inr (''6ba7b810-9dad-11d1-80b4-00c04fd430c8'', ''2024-11-17T18:19:39Z'')"
    by (rule go_libs_initCDEvent)
  have h7: "CheckCustomData go_libs ''application/json''
      (KindContent ''structs.GiteaPushEvent'' (PushEvent push_struct)) = None"
    by (rule go_libs_CheckCustomData)
  from push_translate_event [OF h1 h2 h3 h4 h5 h6 h7]
  show ?thesis
    by (simp add: push_struct_def project_url_parts)
qed

text \<open>
  C8 states that for every push payload with at least one new commit the push translator
  returns a \<^verbatim>\<open>change merged\<close> event whose subject identifier is the hash of the head commit
  of the push. The translator takes a payload to have new commits when its count of
  commits is not zero, and then reads the first element of the list of commits. The
  payload below counts one commit, names it as head commit, and lists none: the translator
  returns no event but panics, and so does \<open>Process\<close> on the message that carries the
  payload, after the logging, the call of the translator and the acknowledgment, and
  without a call of the publisher.
\<close>

theorem unlisted_commit_push_panics:
  "Unmarshal_Push go_libs unlisted_commit_payload =
     Inr \<lparr>TotalCommits = 1, Commits = [],
          Push_Repository =
            \<lparr>FullName = ''yoloco/project1'',
             HtmlUrl = ''http://git.example.com/yoloco/project1''\<rparr>\<rparr> \<and>
   Translate go_libs GiteaPushTranslator unlisted_commit_payload =
     Panic ''runtime error: index out of range [0] with length 0'' \<and>
   Process (Unmarshal_map go_libs) (Translate go_libs) main_adapter
     (message ''webhooks.gitea.push'' unlisted_commit_payload) =
     (Panic ''runtime error: index out of range [0] with length 0'',
      [LogDebug ''Processing incoming webhook message''
         [(''subject'', StringAttr ''webhooks.gitea.push''),
          (''stream_seq'', Uint64Attr 1), (''num_delivered'', Uint64Attr 1),
          (''stream'', StringAttr ''cdevents-adapter-webhooks''),
          (''consumer'', StringAttr ''cdevents-adapter'')],
       TranslateCall GiteaPushTranslator unlisted_commit_payload,
       AckCall])"
  by code_simp

text \<open>
  C10. The push translator reads the first element of the list of commits after testing
  only the count of commits against zero, never the length of the list. So a payload
  whose count is zero is refused whatever its list holds, and for every payload whose
  count is not zero and whose list is empty the read is out of range and the call
  panics (the read is reached once the SDK has built the new event, the only step in
  between that can return).
\<close>

theorem push_translate_index_panic:
  assumes "Unmarshal_Push env data = Inr g"
  shows "(TotalCommits g = 0 \<longrightarrow>
            Translate env GiteaPushTranslator data =
              Err (Errorf ''Push event contains no new commits, will not convert to a CD Event'')) \<and>
         (TotalCommits g \<noteq> 0 \<and> Commits g = [] \<and>
          (\<exists>x. initCDEvent env ChangeMergedEventTypeV0_2_0 = Inr x) \<longrightarrow>
            Translate env GiteaPushTranslator data =
              Panic ''runtime error: index out of range [0] with length 0'')"
  using assms
  by (auto simp add: GiteaPushTranslator_Translate_def addSourcesFromRepositoryUrl_def
      constructor_defs setter_defs Let_def split: sum.split)

text \<open>A push that announces one commit and lists none.\<close>

theorem push_translate_index_panic_witness:
  "Unmarshal_Push go_libs push_no_commits_payload = Inr push_no_commits_struct \<and>
   TotalCommits push_no_commits_struct \<noteq> 0 \<and>
   Commits push_no_commits_struct = [] \<and>
   initCDEvent go_libs ChangeMergedEventTypeV0_2_0 =
     Inr (''6ba7b810-9dad-11d1-80b4-00c04fd430c8'', ''2024-11-17T18:19:39Z'') \<and>
   Translate go_libs GiteaPushTranslator push_no_commits_payload =
     Panic ''runtime error: index out of range [0] with length 0''"
proof -
  have h1: "Unmarshal_Push go_libs push_no_commits_payload = Inr push_no_commits_struct"
    by (rule push_no_commits_payload_decodes)
  have h2: "initCDEvent go_libs ChangeMergedEventTypeV0_2_0 =
      Inr (''6ba7b810-9dad-11d1-80b4-00c04fd430c8'', ''2024-11-17T18:19:39Z'')"
    by (rule go_libs_initCDEvent)
  have h3: "TotalCommits push_no_commits_struct \<noteq> 0"
    by (simp add: push_no_commits_struct_def)
  have h4: "Commits push_no_commits_struct = []"
    by (simp add: push_no_commits_struct_def)
  from push_translate_index_panic [OF h1] h2 h3 h4
  have c: "Translate go_libs GiteaPushTranslator push_no_commits_payload =
     Panic ''runtime error: index out of range [0] with length 0''"
    by blast
  from h1 h3 h4 h2 c show ?thesis by (intro conjI)
qed

subsection \<open>Pull requests\<close>

text \<open>
  C9. For every pull-request payload, the pull-request translator returns a
  \<^verbatim>\<open>change created\<close> event when the action is \<^verbatim>\<open>opened\<close> and a \<^verbatim>\<open>change merged\<close> event when
  it is \<^verbatim>\<open>closed\<close>, both with the subject identifier \<^verbatim>\<open>pr-\<close> followed by the number of the
  pull request in decimal (the SDK building the new event and accepting the custom data);
  for every other action it returns the error
  \<^verbatim>\<open>unsupported Gitea Pull Request action: <action>\<close>.
\<close>

theorem pull_request_translate_event:
  assumes "Unmarshal_PullRequest env data = Inr g"
  shows "(Action g = ''opened'' \<and>
          (\<exists>x. initCDEvent env ChangeCreatedEventTypeV0_3_0 = Inr x) \<and>
          (\<forall>v. CheckCustomData env ''application/json'' v = None) \<longrightarrow>
            (\<exists>e. Translate env GiteaPullRequestTranslator data = Ok e \<and>
                  Context_Type e = ChangeCreatedEventTypeV0_3_0 \<and>
                  Subject_Id e = ''pr-'' @ Sprintf_d (PullRequest_Id (PullRequest g)))) \<and>
         (Action g = ''closed'' \<and>
          (\<exists>x. initCDEvent env ChangeMergedEventTypeV0_2_0 = Inr x) \<and>
          (\<forall>v. CheckCustomData env ''application/json'' v = None) \<longrightarrow>
            (\<exists>e. Translate env GiteaPullRequestTranslator data = Ok e \<and>
                  Context_Type e = ChangeMergedEventTypeV0_2_0 \<and>
                  Subject_Id e = ''pr-'' @ Sprintf_d (PullRequest_Id (PullRequest g)))) \<and>
         (Action g \<noteq> ''opened'' \<and> Action g \<noteq> ''closed'' \<longrightarrow>
            Translate env GiteaPullRequestTranslator data =
              Err (Errorf (''unsupported Gitea Pull Request action: '' @ Action g)))"
  using assms
  by (auto simp add: GiteaPullRequestTranslator_Translate_def addSourcesFromRepositoryUrl_def
      constructor_defs setter_defs Let_def split: sum.split)

text \<open>
  The pull request 3 of the tests, opened; and the same pull request with the action
  \<^verbatim>\<open>reopened\<close>, which the translator does not support.
\<close>

theorem pull_request_translate_event_witness:
  "Unmarshal_PullRequest go_libs pull_request_payload = Inr pull_request_struct \<and>
   Action pull_request_struct = ''opened'' \<and>
   (\<exists>e. Translate go_libs GiteaPullRequestTranslator pull_request_payload = Ok e \<and>
        Context_Type e = ChangeCreatedEventTypeV0_3_0 \<and>
        Subject_Id e = ''pr-3'') \<and>
   Unmarshal_PullRequest go_libs reopened_payload =
     Inr (pull_request_struct\<lparr>Action := ''reopened''\<rparr>) \<and>
   Translate go_libs GiteaPullRequestTranslator reopened_payload =
     Err (Errorf ''unsupported Gitea Pull Request action: reopened'')"
proof -
  have h1: "Unmarshal_PullRequest go_libs pull_request_payload = Inr pull_request_struct"
    by (rule pull_request_payload_decodes)
  have h2: "\<exists>x. initCDEvent go_libs ChangeCreatedEventTypeV0_3_0 = Inr x"
    by (simp add: go_libs_initCDEvent)
  have h3: "\<forall>v. CheckCustomData go_libs ''application/json'' v = None"
    by (simp add: go_libs_CheckCustomData)
  have a: "Action pull_request_struct = ''opened''"
    by (simp add: pull_request_struct_def)
  have i: "''pr-'' @ Sprintf_d (PullRequest_Id (PullRequest pull_request_struct)) = ''pr-3''"
    by (simp add: pull_request_struct_def Sprintf_d_3)
  from pull_request_translate_event [OF h1] a h2 h3
  have c: "\<exists>e. Translate go_libs GiteaPullRequestTranslator pull_request_payload = Ok e \<and>
        Context_Type e = ChangeCreatedEventTypeV0_3_0 \<and>
        Subject_Id e = ''pr-3''"
    unfolding i by blast
  have k1: "Unmarshal_PullRequest go_libs reopened_payload =
     Inr (pull_request_struct\<lparr>Action := ''reopened''\<rparr>)"
    by (rule reopened_payload_decodes)
  have b: "Action (pull_request_struct\<lparr>Action := ''reopened''\<rparr>) \<noteq> ''opened'' \<and>
           Action (pull_request_struct\<lparr>Action := ''reopened''\<rparr>) \<noteq> ''closed''"
    by simp
  from pull_request_translate_event [OF k1] b
  have d: "Translate go_libs GiteaPullRequestTranslator reopened_payload =
     Err (Errorf ''unsupported Gitea Pull Request action: reopened'')"
    by simp
  from h1 a c k1 d show ?thesis by (intro conjI)
qed

end
